theory Spec2Isabelle
  imports
    Complex_Main
    "HOL-Library.Char_ord"
    "HOL-Library.List_Lexorder"
    "HOL-Library.Log_Nat"
begin

section \<open>The query engine: values, text and numbers\<close>

text \<open>
  The three stages of the pipeline (\<^verbatim>\<open>src/etl/bronze.py\<close>, \<^verbatim>\<open>silver.py\<close>,
  \<^verbatim>\<open>gold.py\<close>) are SQL statements run by an embedded analytical engine. A table is a
  list of rows, a row is a record with one field per column, and a column value is an
  \<open>option\<close>: \<open>None\<close> is SQL's NULL. A condition is three-valued (\<open>bool option\<close>);
  \<open>WHERE\<close> keeps a row only where its condition is \<open>Some True\<close>, and a \<open>CASE\<close>
  branch is taken only where its condition is \<open>Some True\<close>.
\<close>

definition sql_and :: "bool option \<Rightarrow> bool option \<Rightarrow> bool option" where
  "sql_and p q =
     (if p = Some False \<or> q = Some False then Some False
      else if p = Some True \<and> q = Some True then Some True
      else None)"

definition sql_ge :: "int option \<Rightarrow> int \<Rightarrow> bool option" where
  "sql_ge x n = map_option (\<lambda>v. n \<le> v) x"

definition sql_le :: "int option \<Rightarrow> int \<Rightarrow> bool option" where
  "sql_le x n = map_option (\<lambda>v. v \<le> n) x"

definition sql_between :: "int option \<Rightarrow> int \<Rightarrow> int \<Rightarrow> bool option" where
  "sql_between x lo hi = sql_and (sql_ge x lo) (sql_le x hi)"

definition is_true :: "bool option \<Rightarrow> bool" where
  "is_true p = (p = Some True)"

definition is_not_null :: "'a option \<Rightarrow> bool" where
  "is_not_null x = (x \<noteq> None)"

definition coalesce :: "'a option \<Rightarrow> 'a \<Rightarrow> 'a" where
  "coalesce x d = (case x of None \<Rightarrow> d | Some v \<Rightarrow> v)"

text \<open>\<open>(b)::INT\<close>: a definite truth value as 1 or 0.\<close>

definition bool_int :: "bool \<Rightarrow> int" where
  "bool_int b = (if b then 1 else 0)"

subsection \<open>Text\<close>

text \<open>
  A VARCHAR is a \<open>string\<close>, compared byte by byte (the engine's default collation).
  \<open>LOWER\<close> and \<open>UPPER\<close> are modelled on the ASCII letters and leave every other byte
  as it is; \<open>TRIM\<close> removes the spaces at both ends.
\<close>

definition lower_char :: "char \<Rightarrow> char" where
  "lower_char c =
     (if CHR ''A'' \<le> c \<and> c \<le> CHR ''Z'' then char_of (of_char c + (32::nat)) else c)"

definition upper_char :: "char \<Rightarrow> char" where
  "upper_char c =
     (if CHR ''a'' \<le> c \<and> c \<le> CHR ''z'' then char_of (of_char c - (32::nat)) else c)"

definition LOWER :: "string \<Rightarrow> string" where
  "LOWER s = map lower_char s"

definition UPPER :: "string \<Rightarrow> string" where
  "UPPER s = map upper_char s"

definition TRIM :: "string \<Rightarrow> string" where
  "TRIM s = rev (dropWhile (\<lambda>c. c = CHR '' '') (rev (dropWhile (\<lambda>c. c = CHR '' '') s)))"

text \<open>\<open>CAST(n AS VARCHAR)\<close> of an integer: its decimal digits, with a minus sign.\<close>

definition digit_char :: "nat \<Rightarrow> char" where
  "digit_char d = ''0123456789'' ! d"

function digits :: "nat \<Rightarrow> string" where
  "digits n = (if n < 10 then [digit_char n] else digits (n div 10) @ [digit_char (n mod 10)])"
  by pat_completeness auto
termination
  by (relation "measure (\<lambda>n. n)") auto

definition int_to_varchar :: "int \<Rightarrow> string" where
  "int_to_varchar i = (if i < 0 then CHR ''-'' # digits (nat (- i)) else digits (nat i))"

subsection \<open>DOUBLE\<close>

text \<open>
  A DOUBLE is an IEEE 754 binary64 number. The model covers the finite ones: a finite
  double is the rational number it denotes, always an integer multiple of \<open>2 ^ - 1074\<close>
  with at most 53 significant bits. Every arithmetic operation computes the exact
  result and rounds it to the nearest double, ties to the even significand (\<open>rnd\<close>).
  Infinities, NaN and overflow (magnitudes from \<open>2 ^ 1024\<close>) are outside the model.
\<close>

type_synonym double = rat

definition round_even :: "rat \<Rightarrow> int" where
  "round_even x =
     (let f = \<lfloor>x\<rfloor>; d = x - of_int f
      in if d < 1 / 2 then f
         else if 1 / 2 < d then f + 1
         else if even f then f else f + 1)"

definition rnd :: "rat \<Rightarrow> double" where
  "rnd x =
     (let y = \<bar>x\<bar> * 2 ^ 1074;
          e = nat (bitlen \<lfloor>y\<rfloor> - 53)
      in sgn x * of_int (round_even (y / 2 ^ e)) * 2 ^ e / 2 ^ 1074)"

definition is_double :: "rat \<Rightarrow> bool" where
  "is_double x = (rnd x = x)"

definition dadd :: "double \<Rightarrow> double \<Rightarrow> double" where
  "dadd x y = rnd (x + y)"

definition dsub :: "double \<Rightarrow> double \<Rightarrow> double" where
  "dsub x y = rnd (x - y)"

definition dmul :: "double \<Rightarrow> double \<Rightarrow> double" where
  "dmul x y = rnd (x * y)"

definition ddiv :: "double \<Rightarrow> double \<Rightarrow> double" where
  "ddiv x y = rnd (x / y)"

text \<open>
  \<open>ROUND(x)\<close> rounds to the nearest whole number, halves away from zero;
  \<open>ROUND(x, p)\<close> scales by \<open>10 ^ p\<close>, rounds in the same way and scales back.
\<close>

definition round_away :: "rat \<Rightarrow> int" where
  "round_away x = (if 0 \<le> x then \<lfloor>x + 1 / 2\<rfloor> else - \<lfloor>- x + 1 / 2\<rfloor>)"

definition ROUND :: "double \<Rightarrow> double" where
  "ROUND x = rnd (of_int (round_away x))"

definition ROUND_to :: "double \<Rightarrow> nat \<Rightarrow> double" where
  "ROUND_to x p = ddiv (rnd (of_int (round_away (dmul x (10 ^ p))))) (10 ^ p)"

section \<open>The tables\<close>

text \<open>
  The source file is read with every column as text (\<open>all_varchar\<close>); an empty field is
  NULL. \<open>csv_row\<close> has the columns the pipeline reads; the record's extension part
  stands for the other columns of the file.
\<close>

type_synonym date = "int \<times> nat \<times> nat"

record csv_row =
  LMK_KEY :: "string option"
  BUILDING_REFERENCE_NUMBER :: "string option"
  UPRN :: "string option"
  ADDRESS1 :: "string option"
  ADDRESS2 :: "string option"
  POSTCODE :: "string option"
  POSTTOWN :: "string option"
  LOCAL_AUTHORITY :: "string option"
  LOCAL_AUTHORITY_LABEL :: "string option"
  CONSTITUENCY_LABEL :: "string option"
  PROPERTY_TYPE :: "string option"
  BUILT_FORM :: "string option"
  CONSTRUCTION_AGE_BAND :: "string option"
  TENURE :: "string option"
  TOTAL_FLOOR_AREA :: "string option"
  NUMBER_HABITABLE_ROOMS :: "string option"
  CURRENT_ENERGY_RATING :: "string option"
  POTENTIAL_ENERGY_RATING :: "string option"
  CURRENT_ENERGY_EFFICIENCY :: "string option"
  POTENTIAL_ENERGY_EFFICIENCY :: "string option"
  CO2_EMISSIONS_CURRENT :: "string option"
  CO2_EMISSIONS_POTENTIAL :: "string option"
  HEATING_COST_CURRENT :: "string option"
  HEATING_COST_POTENTIAL :: "string option"
  HOT_WATER_COST_CURRENT :: "string option"
  HOT_WATER_COST_POTENTIAL :: "string option"
  LIGHTING_COST_CURRENT :: "string option"
  LIGHTING_COST_POTENTIAL :: "string option"
  WALLS_DESCRIPTION :: "string option"
  ROOF_DESCRIPTION :: "string option"
  WINDOWS_DESCRIPTION :: "string option"
  MAINHEAT_DESCRIPTION :: "string option"
  HOTWATER_DESCRIPTION :: "string option"
  LIGHTING_DESCRIPTION :: "string option"
  WALLS_ENERGY_EFF :: "string option"
  ROOF_ENERGY_EFF :: "string option"
  WINDOWS_ENERGY_EFF :: "string option"
  MAINHEAT_ENERGY_EFF :: "string option"
  HOT_WATER_ENERGY_EFF :: "string option"
  LIGHTING_ENERGY_EFF :: "string option"
  MAIN_FUEL :: "string option"
  MAINS_GAS_FLAG :: "string option"
  SOLAR_WATER_HEATING_FLAG :: "string option"
  PHOTO_SUPPLY :: "string option"
  INSPECTION_DATE :: "string option"
  LODGEMENT_DATE :: "string option"
  LODGEMENT_DATETIME :: "string option"
  TRANSACTION_TYPE :: "string option"

text \<open>\<open>bronze.epc_raw\<close>: the file's rows with the two provenance columns.\<close>

record epc_raw = csv_row +
  source_file :: "string option"
  ingested_at :: "string option"

text \<open>\<open>silver.epc_clean\<close>.\<close>

record epc_clean =
  lmk_key :: "string option"
  building_ref :: "string option"
  uprn :: "string option"
  address1 :: "string option"
  address2 :: "string option"
  postcode :: "string option"
  posttown :: "string option"
  local_authority_code :: "string option"
  local_authority :: "string option"
  constituency :: "string option"
  property_type :: "string option"
  built_form :: "string option"
  construction_age_band :: "string option"
  tenure :: "string option"
  total_floor_area :: "double option"
  num_habitable_rooms :: "int option"
  current_rating :: "string option"
  potential_rating :: "string option"
  current_efficiency :: "int option"
  potential_efficiency :: "int option"
  co2_current :: "double option"
  co2_potential :: "double option"
  heating_cost_current :: "double option"
  heating_cost_potential :: "double option"
  hot_water_cost_current :: "double option"
  hot_water_cost_potential :: "double option"
  lighting_cost_current :: "double option"
  lighting_cost_potential :: "double option"
  walls_description :: "string option"
  roof_description :: "string option"
  windows_description :: "string option"
  heating_description :: "string option"
  hot_water_description :: "string option"
  lighting_description :: "string option"
  walls_eff_label :: "string option"
  roof_eff_label :: "string option"
  windows_eff_label :: "string option"
  heating_eff_label :: "string option"
  hot_water_eff_label :: "string option"
  lighting_eff_label :: "string option"
  main_fuel :: "string option"
  mains_gas :: "string option"
  solar_water_heating :: "string option"
  solar_pv_supply_pct :: "double option"
  inspection_date :: "date option"
  lodgement_date :: "date option"
  transaction_type :: "string option"
  walls_eff_score :: "int option"
  roof_eff_score :: "int option"
  windows_eff_score :: "int option"
  heating_eff_score :: "int option"
  hot_water_eff_score :: "int option"
  lighting_eff_score :: "int option"
  data_quality_score :: "double option"

section \<open>The Normalizer (\<^verbatim>\<open>silver.run\<close>)\<close>

text \<open>
  \<open>TRY_CAST\<close> turns text into a number or a date and gives NULL where the text does
  not parse. Which texts parse is the engine's business: the three casts are parameters
  of the stage, and every theorem below holds for all of them.
\<close>

record casts =
  TRY_CAST_INTEGER :: "string \<Rightarrow> int option"
  TRY_CAST_DOUBLE :: "string \<Rightarrow> double option"
  TRY_CAST_DATE :: "string \<Rightarrow> date option"

definition try_cast :: "(string \<Rightarrow> 'a option) \<Rightarrow> string option \<Rightarrow> 'a option" where
  "try_cast f x = (case x of None \<Rightarrow> None | Some s \<Rightarrow> f s)"

text \<open>
  \<open>ROW_NUMBER() OVER (PARTITION BY LMK_KEY ORDER BY LODGEMENT_DATETIME DESC)\<close>.
  The timestamp is text and is compared as text; in descending order a row without a
  timestamp comes after every row that has one. The number of a row is one more than
  the count of the rows of its partition that are sorted before it. The engine may put
  rows with equal timestamps in any order; here the row that comes first in the table
  goes first.
\<close>

definition sorts_before :: "string option \<Rightarrow> string option \<Rightarrow> bool" where
  "sorts_before a b =
     (case a of None \<Rightarrow> False
      | Some x \<Rightarrow> (case b of None \<Rightarrow> True | Some y \<Rightarrow> y < x))"

fun number_rows :: "epc_raw list \<Rightarrow> epc_raw list \<Rightarrow> (epc_raw \<times> nat) list" where
  "number_rows seen [] = []"
| "number_rows seen (r # rest) =
     (r, Suc (length (filter (\<lambda>q. LMK_KEY q = LMK_KEY r \<and>
                  \<not> sorts_before (LODGEMENT_DATETIME r) (LODGEMENT_DATETIME q)) seen)
            + length (filter (\<lambda>q. LMK_KEY q = LMK_KEY r \<and>
                  sorts_before (LODGEMENT_DATETIME q) (LODGEMENT_DATETIME r)) rest)))
     # number_rows (r # seen) rest"

definition deduped :: "epc_raw list \<Rightarrow> (epc_raw \<times> nat) list" where
  "deduped rows = number_rows [] rows"

text \<open>The \<open>WHERE\<close> clause of \<open>base\<close>: rank 1 and the three mandatory columns.\<close>

definition base_where :: "epc_raw \<times> nat \<Rightarrow> bool" where
  "base_where p =
     (case p of (r, rn) \<Rightarrow>
        rn = 1
        \<and> is_not_null (CURRENT_ENERGY_EFFICIENCY r)
        \<and> is_not_null (POTENTIAL_ENERGY_EFFICIENCY r)
        \<and> is_not_null (PROPERTY_TYPE r))"

text \<open>The five-level table of the \<open>CASE\<close> expressions.\<close>

definition eff_score :: "string option \<Rightarrow> int option" where
  "eff_score l =
     (if l = Some ''Very Good'' then Some 5
      else if l = Some ''Good'' then Some 4
      else if l = Some ''Average'' then Some 3
      else if l = Some ''Poor'' then Some 2
      else if l = Some ''Very Poor'' then Some 1
      else None)"

text \<open>
  \<open>ROUND(100.0 * (... eight \<open>IS NOT NULL\<close> tests as 0 or 1 ...) / 8.0)\<close>; the floor
  area tested is the cast one.
\<close>

definition quality_count :: "epc_clean \<Rightarrow> int" where
  "quality_count c =
       bool_int (is_not_null (walls_description c))
     + bool_int (is_not_null (roof_description c))
     + bool_int (is_not_null (windows_description c))
     + bool_int (is_not_null (heating_description c))
     + bool_int (is_not_null (total_floor_area c))
     + bool_int (is_not_null (construction_age_band c))
     + bool_int (is_not_null (tenure c))
     + bool_int (is_not_null (main_fuel c))"

definition quality_score :: "epc_clean \<Rightarrow> double" where
  "quality_score c = ROUND (ddiv (100 * of_int (quality_count c)) 8)"

text \<open>The columns of \<open>base\<close>, then the seven computed from them.\<close>

definition base :: "casts \<Rightarrow> epc_raw \<Rightarrow> epc_clean" where
  "base cs r =
     \<lparr> lmk_key = LMK_KEY r,
       building_ref = BUILDING_REFERENCE_NUMBER r,
       uprn = UPRN r,
       address1 = ADDRESS1 r,
       address2 = ADDRESS2 r,
       postcode = POSTCODE r,
       posttown = POSTTOWN r,
       local_authority_code = LOCAL_AUTHORITY r,
       local_authority = LOCAL_AUTHORITY_LABEL r,
       constituency = CONSTITUENCY_LABEL r,
       property_type = PROPERTY_TYPE r,
       built_form = BUILT_FORM r,
       construction_age_band = CONSTRUCTION_AGE_BAND r,
       tenure = TENURE r,
       total_floor_area = try_cast (TRY_CAST_DOUBLE cs) (TOTAL_FLOOR_AREA r),
       num_habitable_rooms = try_cast (TRY_CAST_INTEGER cs) (NUMBER_HABITABLE_ROOMS r),
       current_rating = map_option (\<lambda>s. UPPER (TRIM s)) (CURRENT_ENERGY_RATING r),
       potential_rating = map_option (\<lambda>s. UPPER (TRIM s)) (POTENTIAL_ENERGY_RATING r),
       current_efficiency = try_cast (TRY_CAST_INTEGER cs) (CURRENT_ENERGY_EFFICIENCY r),
       potential_efficiency = try_cast (TRY_CAST_INTEGER cs) (POTENTIAL_ENERGY_EFFICIENCY r),
       co2_current = try_cast (TRY_CAST_DOUBLE cs) (CO2_EMISSIONS_CURRENT r),
       co2_potential = try_cast (TRY_CAST_DOUBLE cs) (CO2_EMISSIONS_POTENTIAL r),
       heating_cost_current = try_cast (TRY_CAST_DOUBLE cs) (HEATING_COST_CURRENT r),
       heating_cost_potential = try_cast (TRY_CAST_DOUBLE cs) (HEATING_COST_POTENTIAL r),
       hot_water_cost_current = try_cast (TRY_CAST_DOUBLE cs) (HOT_WATER_COST_CURRENT r),
       hot_water_cost_potential = try_cast (TRY_CAST_DOUBLE cs) (HOT_WATER_COST_POTENTIAL r),
       lighting_cost_current = try_cast (TRY_CAST_DOUBLE cs) (LIGHTING_COST_CURRENT r),
       lighting_cost_potential = try_cast (TRY_CAST_DOUBLE cs) (LIGHTING_COST_POTENTIAL r),
       walls_description = WALLS_DESCRIPTION r,
       roof_description = ROOF_DESCRIPTION r,
       windows_description = WINDOWS_DESCRIPTION r,
       heating_description = MAINHEAT_DESCRIPTION r,
       hot_water_description = HOTWATER_DESCRIPTION r,
       lighting_description = LIGHTING_DESCRIPTION r,
       walls_eff_label = WALLS_ENERGY_EFF r,
       roof_eff_label = ROOF_ENERGY_EFF r,
       windows_eff_label = WINDOWS_ENERGY_EFF r,
       heating_eff_label = MAINHEAT_ENERGY_EFF r,
       hot_water_eff_label = HOT_WATER_ENERGY_EFF r,
       lighting_eff_label = LIGHTING_ENERGY_EFF r,
       main_fuel = MAIN_FUEL r,
       mains_gas = MAINS_GAS_FLAG r,
       solar_water_heating = SOLAR_WATER_HEATING_FLAG r,
       solar_pv_supply_pct = try_cast (TRY_CAST_DOUBLE cs) (PHOTO_SUPPLY r),
       inspection_date = try_cast (TRY_CAST_DATE cs) (INSPECTION_DATE r),
       lodgement_date = try_cast (TRY_CAST_DATE cs) (LODGEMENT_DATE r),
       transaction_type = TRANSACTION_TYPE r,
       walls_eff_score = None,
       roof_eff_score = None,
       windows_eff_score = None,
       heating_eff_score = None,
       hot_water_eff_score = None,
       lighting_eff_score = None,
       data_quality_score = None \<rparr>"

definition scored :: "epc_clean \<Rightarrow> epc_clean" where
  "scored b =
     b \<lparr> walls_eff_score := eff_score (walls_eff_label b),
         roof_eff_score := eff_score (roof_eff_label b),
         windows_eff_score := eff_score (windows_eff_label b),
         heating_eff_score := eff_score (heating_eff_label b),
         hot_water_eff_score := eff_score (hot_water_eff_label b),
         lighting_eff_score := eff_score (lighting_eff_label b),
         data_quality_score := Some (quality_score b) \<rparr>"

text \<open>The statement \<open>CREATE TABLE silver.epc_clean AS ...\<close>.\<close>

definition silver_select :: "casts \<Rightarrow> epc_raw list \<Rightarrow> epc_clean list" where
  "silver_select cs rows = map (\<lambda>p. scored (base cs (fst p))) (filter base_where (deduped rows))"

section \<open>The Feature/Aggregation Builder (\<^verbatim>\<open>gold.run\<close>)\<close>

text \<open>\<open>gold.epc_features\<close>.\<close>

record epc_features =
  lmk_key :: "string option"
  uprn :: "string option"
  postcode :: "string option"
  local_authority :: "string option"
  constituency :: "string option"
  property_type :: "string option"
  built_form :: "string option"
  construction_age_band :: "string option"
  tenure :: "string option"
  total_floor_area :: "double option"
  num_habitable_rooms :: "int option"
  main_fuel :: "string option"
  mains_gas :: "string option"
  solar_water_heating :: "string option"
  solar_pv_supply_pct :: "double option"
  current_rating :: "string option"
  current_efficiency :: "int option"
  potential_rating :: "string option"
  potential_efficiency :: "int option"
  retrofit_score :: "int option"
  retrofit_priority :: "string option"
  total_cost_current :: "double option"
  total_cost_potential :: "double option"
  annual_savings_potential :: "double option"
  co2_saving_tonnes :: "double option"
  walls_eff_score :: "int option"
  roof_eff_score :: "int option"
  windows_eff_score :: "int option"
  heating_eff_score :: "int option"
  hot_water_eff_score :: "int option"
  lighting_eff_score :: "int option"
  walls_description :: "string option"
  roof_description :: "string option"
  windows_description :: "string option"
  heating_description :: "string option"
  hot_water_description :: "string option"
  lighting_description :: "string option"
  data_quality_score :: "double option"
  text_summary :: "string option"
  lodgement_date :: "date option"

text \<open>\<open>gold.portfolio_agg\<close>.\<close>

record portfolio_agg =
  property_type :: "string option"
  construction_age_band :: "string option"
  retrofit_priority :: "string option"
  property_count :: "int option"
  avg_current_efficiency :: "double option"
  avg_potential_efficiency :: "double option"
  avg_retrofit_score :: "double option"
  avg_annual_savings_gbp :: "double option"
  total_co2_saving_tonnes :: "double option"
  avg_floor_area_m2 :: "double option"

text \<open>
  \<open>potential_efficiency - current_efficiency\<close>: NULL where either is NULL. It is
  computed on rows that passed the range filter, where it lies between -99 and 99.
\<close>

definition int_minus :: "int option \<Rightarrow> int option \<Rightarrow> int option" where
  "int_minus a b =
     (case a of None \<Rightarrow> None
      | Some x \<Rightarrow> (case b of None \<Rightarrow> None | Some y \<Rightarrow> Some (x - y)))"

definition double_minus :: "double option \<Rightarrow> double option \<Rightarrow> double option" where
  "double_minus a b =
     (case a of None \<Rightarrow> None
      | Some x \<Rightarrow> (case b of None \<Rightarrow> None | Some y \<Rightarrow> Some (dsub x y)))"

definition retrofit_score_of :: "epc_clean \<Rightarrow> int option" where
  "retrofit_score_of c =
     int_minus (epc_clean.potential_efficiency c) (epc_clean.current_efficiency c)"

definition retrofit_priority_of :: "epc_clean \<Rightarrow> string" where
  "retrofit_priority_of c =
     (if is_true (sql_ge (int_minus (epc_clean.potential_efficiency c)
                                    (epc_clean.current_efficiency c)) 20) then ''High''
      else if is_true (sql_ge (int_minus (epc_clean.potential_efficiency c)
                                         (epc_clean.current_efficiency c)) 10) then ''Medium''
      else ''Low'')"

definition total_cost_current_of :: "epc_clean \<Rightarrow> double" where
  "total_cost_current_of c =
     dadd (dadd (coalesce (heating_cost_current c) 0)
                (coalesce (hot_water_cost_current c) 0))
          (coalesce (lighting_cost_current c) 0)"

definition total_cost_potential_of :: "epc_clean \<Rightarrow> double" where
  "total_cost_potential_of c =
     dadd (dadd (coalesce (heating_cost_potential c) 0)
                (coalesce (hot_water_cost_potential c) 0))
          (coalesce (lighting_cost_potential c) 0)"

definition annual_savings_potential_of :: "epc_clean \<Rightarrow> double" where
  "annual_savings_potential_of c =
     dadd (dadd (dsub (coalesce (heating_cost_current c) 0)
                      (coalesce (heating_cost_potential c) 0))
                (dsub (coalesce (hot_water_cost_current c) 0)
                      (coalesce (hot_water_cost_potential c) 0)))
          (dsub (coalesce (lighting_cost_current c) 0)
                (coalesce (lighting_cost_potential c) 0))"

definition co2_saving_tonnes_of :: "epc_clean \<Rightarrow> double option" where
  "co2_saving_tonnes_of c =
     map_option (\<lambda>d. ROUND_to d 2) (double_minus (co2_current c) (co2_potential c))"

text \<open>The sentence handed to the text encoder (\<open>CONCAT\<close> of 25 pieces).\<close>

definition text_summary_of :: "epc_clean \<Rightarrow> string" where
  "text_summary_of c = concat
     [ ''This is a '', LOWER (coalesce (epc_clean.property_type c) ''residential property''),
       '' ('', LOWER (coalesce (epc_clean.built_form c) ''unknown form''), '')'',
       '' built '', LOWER (coalesce (epc_clean.construction_age_band c) ''in an unknown period''), ''.'',
       '' It has an energy rating of '', coalesce (epc_clean.current_rating c) ''?'',
       '' (efficiency score '',
         coalesce (map_option int_to_varchar (epc_clean.current_efficiency c)) ''?'', ''/100)'',
       '' and could reach '', coalesce (epc_clean.potential_rating c) ''?'',
       '' ('', coalesce (map_option int_to_varchar (epc_clean.potential_efficiency c)) ''?'',
         ''/100) with improvements.'',
       '' Walls: '', LOWER (coalesce (epc_clean.walls_description c) ''unknown''), ''.'',
       '' Roof: '', LOWER (coalesce (epc_clean.roof_description c) ''unknown''), ''.'',
       '' Windows: '', LOWER (coalesce (epc_clean.windows_description c) ''unknown''), ''.'',
       '' Heating: '', LOWER (coalesce (epc_clean.heating_description c) ''unknown''), ''.'',
       '' Main fuel: '', LOWER (coalesce (epc_clean.main_fuel c) ''unknown''), ''.'' ]"

text \<open>The \<open>WHERE\<close> clause and the select list of \<open>gold.epc_features\<close>.\<close>

definition features_where :: "epc_clean \<Rightarrow> bool" where
  "features_where c =
     is_true (sql_and (sql_between (epc_clean.current_efficiency c) 1 100)
                      (sql_between (epc_clean.potential_efficiency c) 1 100))"

definition features_row :: "epc_clean \<Rightarrow> epc_features" where
  "features_row c =
     \<lparr> lmk_key = epc_clean.lmk_key c,
       uprn = epc_clean.uprn c,
       postcode = epc_clean.postcode c,
       local_authority = epc_clean.local_authority c,
       constituency = epc_clean.constituency c,
       property_type = epc_clean.property_type c,
       built_form = epc_clean.built_form c,
       construction_age_band = epc_clean.construction_age_band c,
       tenure = epc_clean.tenure c,
       total_floor_area = epc_clean.total_floor_area c,
       num_habitable_rooms = epc_clean.num_habitable_rooms c,
       main_fuel = epc_clean.main_fuel c,
       mains_gas = epc_clean.mains_gas c,
       solar_water_heating = epc_clean.solar_water_heating c,
       solar_pv_supply_pct = epc_clean.solar_pv_supply_pct c,
       current_rating = epc_clean.current_rating c,
       current_efficiency = epc_clean.current_efficiency c,
       potential_rating = epc_clean.potential_rating c,
       potential_efficiency = epc_clean.potential_efficiency c,
       retrofit_score = retrofit_score_of c,
       retrofit_priority = Some (retrofit_priority_of c),
       total_cost_current = Some (total_cost_current_of c),
       total_cost_potential = Some (total_cost_potential_of c),
       annual_savings_potential = Some (annual_savings_potential_of c),
       co2_saving_tonnes = co2_saving_tonnes_of c,
       walls_eff_score = epc_clean.walls_eff_score c,
       roof_eff_score = epc_clean.roof_eff_score c,
       windows_eff_score = epc_clean.windows_eff_score c,
       heating_eff_score = epc_clean.heating_eff_score c,
       hot_water_eff_score = epc_clean.hot_water_eff_score c,
       lighting_eff_score = epc_clean.lighting_eff_score c,
       walls_description = epc_clean.walls_description c,
       roof_description = epc_clean.roof_description c,
       windows_description = epc_clean.windows_description c,
       heating_description = epc_clean.heating_description c,
       hot_water_description = epc_clean.hot_water_description c,
       lighting_description = epc_clean.lighting_description c,
       data_quality_score = epc_clean.data_quality_score c,
       text_summary = Some (text_summary_of c),
       lodgement_date = epc_clean.lodgement_date c \<rparr>"

definition features_select :: "epc_clean list \<Rightarrow> epc_features list" where
  "features_select clean = map features_row (filter features_where clean)"

subsection \<open>Aggregates\<close>

text \<open>
  An aggregate skips NULLs and is NULL over no values at all. \<open>AVG\<close> of integers divides
  the exact sum by the count; \<open>SUM\<close> and \<open>AVG\<close> of doubles add in floating point, here in
  the order of the rows.
\<close>

definition non_null :: "'a option list \<Rightarrow> 'a list" where
  "non_null xs = List.map_filter (\<lambda>x. x) xs"

definition AVG_int :: "int option list \<Rightarrow> double option" where
  "AVG_int xs =
     (let vs = non_null xs
      in if vs = [] then None
         else Some (ddiv (rnd (of_int (sum_list vs))) (rnd (of_nat (length vs)))))"

definition SUM_double :: "double option list \<Rightarrow> double option" where
  "SUM_double xs =
     (let vs = non_null xs
      in if vs = [] then None else Some (foldl dadd 0 vs))"

definition AVG_double :: "double option list \<Rightarrow> double option" where
  "AVG_double xs =
     (let vs = non_null xs
      in if vs = [] then None
         else Some (ddiv (foldl dadd 0 vs) (rnd (of_nat (length vs)))))"

text \<open>\<open>GROUP BY property_type, construction_age_band, retrofit_priority\<close>; two NULLs
  fall into the same group.\<close>

definition segment_key :: "epc_features \<Rightarrow> string option \<times> string option \<times> string option" where
  "segment_key f =
     (epc_features.property_type f, epc_features.construction_age_band f,
      epc_features.retrofit_priority f)"

definition segment_row ::
  "string option \<times> string option \<times> string option \<Rightarrow> epc_features list \<Rightarrow> portfolio_agg" where
  "segment_row k g =
     \<lparr> property_type = fst k,
       construction_age_band = fst (snd k),
       retrofit_priority = snd (snd k),
       property_count = Some (int (length g)),
       avg_current_efficiency =
         map_option (\<lambda>d. ROUND_to d 1) (AVG_int (map epc_features.current_efficiency g)),
       avg_potential_efficiency =
         map_option (\<lambda>d. ROUND_to d 1) (AVG_int (map epc_features.potential_efficiency g)),
       avg_retrofit_score =
         map_option (\<lambda>d. ROUND_to d 1) (AVG_int (map retrofit_score g)),
       avg_annual_savings_gbp =
         map_option (\<lambda>d. ROUND_to d 0) (AVG_double (map annual_savings_potential g)),
       total_co2_saving_tonnes =
         map_option (\<lambda>d. ROUND_to d 1) (SUM_double (map co2_saving_tonnes g)),
       avg_floor_area_m2 =
         map_option (\<lambda>d. ROUND_to d 1) (AVG_double (map epc_features.total_floor_area g)) \<rparr>"

definition grouped :: "epc_features list \<Rightarrow> portfolio_agg list" where
  "grouped fs =
     map (\<lambda>k. segment_row k (filter (\<lambda>f. segment_key f = k) fs))
         (remdups (map segment_key fs))"

text \<open>\<open>ORDER BY avg_retrofit_score DESC\<close>: larger averages first, NULL last; rows with
  the same average stay in the order they had.\<close>

definition score_before :: "double option \<Rightarrow> double option \<Rightarrow> bool" where
  "score_before a b =
     (case a of None \<Rightarrow> False
      | Some x \<Rightarrow> (case b of None \<Rightarrow> True | Some y \<Rightarrow> y < x))"

fun insert_desc :: "portfolio_agg \<Rightarrow> portfolio_agg list \<Rightarrow> portfolio_agg list" where
  "insert_desc s [] = [s]"
| "insert_desc s (t # ts) =
     (if score_before (avg_retrofit_score t) (avg_retrofit_score s)
      then t # insert_desc s ts else s # t # ts)"

definition order_by_score :: "portfolio_agg list \<Rightarrow> portfolio_agg list" where
  "order_by_score segs = foldr insert_desc segs []"

definition portfolio_select :: "epc_features list \<Rightarrow> portfolio_agg list" where
  "portfolio_select fs = order_by_score (grouped fs)"

section \<open>The store and the three runs\<close>

text \<open>
  The database file holds the schemas and the four tables; a table that does not exist
  is \<open>None\<close>. Every statement is committed as it is executed, so a run that raises
  leaves the store as the statements before the failing one made it. A run returns the
  store and either the error raised or its counts.
\<close>

datatype error = IOException | InvalidInputException | CatalogException

record store =
  schemas :: "string set"
  bronze_epc_raw :: "epc_raw list option"
  silver_epc_clean :: "epc_clean list option"
  gold_epc_features :: "epc_features list option"
  gold_portfolio_agg :: "portfolio_agg list option"

definition create_schema :: "string \<Rightarrow> store \<Rightarrow> store" where
  "create_schema n st = st \<lparr> schemas := insert n (schemas st) \<rparr>"

text \<open>
  \<^verbatim>\<open>bronze.run\<close>. \<open>file\<close> is what \<open>read_csv_auto\<close> makes of the path: the rows, or the
  error it raises when the file is missing, unreadable or not delimited text.
\<close>

definition bronze_run ::
  "string \<Rightarrow> string \<Rightarrow> error + csv_row list \<Rightarrow> store \<Rightarrow> store \<times> (error + nat)" where
  "bronze_run csv_path now file st =
     (let st1 = create_schema ''bronze'' st;
          st2 = st1 \<lparr> bronze_epc_raw := None \<rparr>
      in case file of
           Inl e \<Rightarrow> (st2, Inl e)
         | Inr rows \<Rightarrow>
             (let t = map (\<lambda>r. csv_row.extend r
                             \<lparr> source_file = Some csv_path, ingested_at = Some now \<rparr>) rows
              in (st2 \<lparr> bronze_epc_raw := Some t \<rparr>, Inr (length t))))"

text \<open>\<^verbatim>\<open>silver.run\<close>: returns the rows kept and the rows dropped.\<close>

definition silver_run :: "casts \<Rightarrow> store \<Rightarrow> store \<times> (error + int \<times> int)" where
  "silver_run cs st =
     (let st1 = create_schema ''silver'' st;
          st2 = st1 \<lparr> silver_epc_clean := None \<rparr>
      in case bronze_epc_raw st2 of
           None \<Rightarrow> (st2, Inl CatalogException)
         | Some raw \<Rightarrow>
             (let t = silver_select cs raw;
                  row_count = int (length t);
                  raw_count = int (length raw)
              in (st2 \<lparr> silver_epc_clean := Some t \<rparr>, Inr (row_count, raw_count - row_count))))"

text \<open>\<^verbatim>\<open>gold.run\<close>: returns the numbers of feature rows and of segments.\<close>

definition gold_run :: "store \<Rightarrow> store \<times> (error + nat \<times> nat)" where
  "gold_run st =
     (let st1 = create_schema ''gold'' st;
          st2 = st1 \<lparr> gold_epc_features := None \<rparr>;
          st3 = st2 \<lparr> gold_portfolio_agg := None \<rparr>
      in case silver_epc_clean st3 of
           None \<Rightarrow> (st3, Inl CatalogException)
         | Some clean \<Rightarrow>
             (let fs = features_select clean;
                  st4 = st3 \<lparr> gold_epc_features := Some fs \<rparr>;
                  segs = portfolio_select fs;
                  st5 = st4 \<lparr> gold_portfolio_agg := Some segs \<rparr>
              in (st5, Inr (length fs, length segs))))"

text \<open>\<^verbatim>\<open>run_pipeline.run\<close>: the three runs in order; an error ends the run there.\<close>

definition run_pipeline ::
  "casts \<Rightarrow> string \<Rightarrow> string \<Rightarrow> error + csv_row list \<Rightarrow> store
     \<Rightarrow> store \<times> (error + nat \<times> (int \<times> int) \<times> (nat \<times> nat))" where
  "run_pipeline cs csv_path now file st =
     (case bronze_run csv_path now file st of
        (st1, Inl e) \<Rightarrow> (st1, Inl e)
      | (st1, Inr b) \<Rightarrow>
          (case silver_run cs st1 of
             (st2, Inl e) \<Rightarrow> (st2, Inl e)
           | (st2, Inr s) \<Rightarrow>
               (case gold_run st2 of
                  (st3, Inl e) \<Rightarrow> (st3, Inl e)
                | (st3, Inr g) \<Rightarrow> (st3, Inr (b, s, g)))))"

section \<open>The summary template of the specification\<close>

text \<open>
  The specification gives the sentence of \<open>text_summary\<close> as a template: text to copy,
  and slots \<open>{field|'fallback'}\<close> that stand for the value of a field, or for the
  fallback where the field is NULL. The definitions of this section follow the
  specification, not the code: \<open>render_from\<close> fills the slots of a template from an
  assignment of values to field names, \<open>summary_template\<close> is the template as the
  specification prints it, and \<open>template_fields\<close> gives the value to substitute for each
  field: the descriptive fields in lower case, the two ratings as they are stored, the
  two efficiencies as decimal numerals. \<open>template_summary\<close> is compared below with
  \<open>text_summary_of\<close>, the \<open>CONCAT\<close> of the code.
\<close>

datatype slot_mode = Copy | Name string | Fallback string string

fun render_from :: "(string \<Rightarrow> string option) \<Rightarrow> slot_mode \<Rightarrow> string \<Rightarrow> string" where
  "render_from env m [] = []"
| "render_from env Copy (c # cs) =
     (if c = CHR ''{'' then render_from env (Name []) cs
      else c # render_from env Copy cs)"
| "render_from env (Name n) (c # cs) =
     (if c = CHR ''|'' then render_from env (Fallback n []) cs
      else render_from env (Name (n @ [c])) cs)"
| "render_from env (Fallback n d) (c # cs) =
     (if c = CHR ''}'' then coalesce (env n) d @ render_from env Copy cs
      else if c = CHR 0x27 then render_from env (Fallback n d) cs
      else render_from env (Fallback n (d @ [c])) cs)"

definition summary_template :: string where
  "summary_template =
     ''This is a {property_type|'residential property'} ({built_form|'unknown form'}) built {construction_age_band|'in an unknown period'}. It has an energy rating of {current_rating|'?'} (efficiency score {current_efficiency|'?'}/100) and could reach {potential_rating|'?'} ({potential_efficiency|'?'}/100) with improvements. Walls: {walls_description|'unknown'}. Roof: {roof_description|'unknown'}. Windows: {windows_description|'unknown'}. Heating: {heating_description|'unknown'}. Main fuel: {main_fuel|'unknown'}.''"

definition template_fields :: "epc_clean \<Rightarrow> string \<Rightarrow> string option" where
  "template_fields c name =
     (if name = ''property_type'' then map_option LOWER (epc_clean.property_type c)
      else if name = ''built_form'' then map_option LOWER (epc_clean.built_form c)
      else if name = ''construction_age_band''
        then map_option LOWER (epc_clean.construction_age_band c)
      else if name = ''current_rating'' then epc_clean.current_rating c
      else if name = ''current_efficiency''
        then map_option int_to_varchar (epc_clean.current_efficiency c)
      else if name = ''potential_rating'' then epc_clean.potential_rating c
      else if name = ''potential_efficiency''
        then map_option int_to_varchar (epc_clean.potential_efficiency c)
      else if name = ''walls_description'' then map_option LOWER (epc_clean.walls_description c)
      else if name = ''roof_description'' then map_option LOWER (epc_clean.roof_description c)
      else if name = ''windows_description''
        then map_option LOWER (epc_clean.windows_description c)
      else if name = ''heating_description''
        then map_option LOWER (epc_clean.heating_description c)
      else if name = ''main_fuel'' then map_option LOWER (epc_clean.main_fuel c)
      else None)"

definition template_summary :: "epc_clean \<Rightarrow> string" where
  "template_summary c = render_from (template_fields c) Copy summary_template"


section \<open>Worked examples\<close>

text \<open>
  The concrete rows below are used to run the definitions. \<open>plain_casts\<close> is an instance
  of the casts for them: a whole number in plain decimal notation parses, any other
  text does not. (The engine accepts more notations; the examples use none of them.)
\<close>

definition digit_value :: "char \<Rightarrow> nat option" where
  "digit_value c =
     (if CHR ''0'' \<le> c \<and> c \<le> CHR ''9'' then Some (of_char c - 48) else None)"

fun parse_digits :: "string \<Rightarrow> nat \<Rightarrow> nat option" where
  "parse_digits [] acc = Some acc"
| "parse_digits (c # cs) acc =
     (case digit_value c of None \<Rightarrow> None | Some d \<Rightarrow> parse_digits cs (10 * acc + d))"

definition plain_integer :: "string \<Rightarrow> int option" where
  "plain_integer s =
     (case s of
        [] \<Rightarrow> None
      | c # cs \<Rightarrow>
          if c = CHR ''-''
          then (if cs = [] then None else map_option (\<lambda>n. - int n) (parse_digits cs 0))
          else map_option int (parse_digits s 0))"

definition plain_casts :: casts where
  "plain_casts =
     \<lparr> TRY_CAST_INTEGER = plain_integer,
       TRY_CAST_DOUBLE = (\<lambda>s. map_option (\<lambda>i. rnd (of_int i)) (plain_integer s)),
       TRY_CAST_DATE = (\<lambda>s. None) \<rparr>"

definition blank_row :: epc_raw where
  "blank_row =
     \<lparr> LMK_KEY = None,
       BUILDING_REFERENCE_NUMBER = None,
       UPRN = None,
       ADDRESS1 = None,
       ADDRESS2 = None,
       POSTCODE = None,
       POSTTOWN = None,
       LOCAL_AUTHORITY = None,
       LOCAL_AUTHORITY_LABEL = None,
       CONSTITUENCY_LABEL = None,
       PROPERTY_TYPE = None,
       BUILT_FORM = None,
       CONSTRUCTION_AGE_BAND = None,
       TENURE = None,
       TOTAL_FLOOR_AREA = None,
       NUMBER_HABITABLE_ROOMS = None,
       CURRENT_ENERGY_RATING = None,
       POTENTIAL_ENERGY_RATING = None,
       CURRENT_ENERGY_EFFICIENCY = None,
       POTENTIAL_ENERGY_EFFICIENCY = None,
       CO2_EMISSIONS_CURRENT = None,
       CO2_EMISSIONS_POTENTIAL = None,
       HEATING_COST_CURRENT = None,
       HEATING_COST_POTENTIAL = None,
       HOT_WATER_COST_CURRENT = None,
       HOT_WATER_COST_POTENTIAL = None,
       LIGHTING_COST_CURRENT = None,
       LIGHTING_COST_POTENTIAL = None,
       WALLS_DESCRIPTION = None,
       ROOF_DESCRIPTION = None,
       WINDOWS_DESCRIPTION = None,
       MAINHEAT_DESCRIPTION = None,
       HOTWATER_DESCRIPTION = None,
       LIGHTING_DESCRIPTION = None,
       WALLS_ENERGY_EFF = None,
       ROOF_ENERGY_EFF = None,
       WINDOWS_ENERGY_EFF = None,
       MAINHEAT_ENERGY_EFF = None,
       HOT_WATER_ENERGY_EFF = None,
       LIGHTING_ENERGY_EFF = None,
       MAIN_FUEL = None,
       MAINS_GAS_FLAG = None,
       SOLAR_WATER_HEATING_FLAG = None,
       PHOTO_SUPPLY = None,
       INSPECTION_DATE = None,
       LODGEMENT_DATE = None,
       LODGEMENT_DATETIME = None,
       TRANSACTION_TYPE = None,
       source_file = None,
       ingested_at = None \<rparr>"

definition blank_clean :: epc_clean where
  "blank_clean =
     \<lparr> epc_clean.lmk_key = None,
       epc_clean.building_ref = None,
       epc_clean.uprn = None,
       epc_clean.address1 = None,
       epc_clean.address2 = None,
       epc_clean.postcode = None,
       epc_clean.posttown = None,
       epc_clean.local_authority_code = None,
       epc_clean.local_authority = None,
       epc_clean.constituency = None,
       epc_clean.property_type = None,
       epc_clean.built_form = None,
       epc_clean.construction_age_band = None,
       epc_clean.tenure = None,
       epc_clean.total_floor_area = None,
       epc_clean.num_habitable_rooms = None,
       epc_clean.current_rating = None,
       epc_clean.potential_rating = None,
       epc_clean.current_efficiency = None,
       epc_clean.potential_efficiency = None,
       epc_clean.co2_current = None,
       epc_clean.co2_potential = None,
       epc_clean.heating_cost_current = None,
       epc_clean.heating_cost_potential = None,
       epc_clean.hot_water_cost_current = None,
       epc_clean.hot_water_cost_potential = None,
       epc_clean.lighting_cost_current = None,
       epc_clean.lighting_cost_potential = None,
       epc_clean.walls_description = None,
       epc_clean.roof_description = None,
       epc_clean.windows_description = None,
       epc_clean.heating_description = None,
       epc_clean.hot_water_description = None,
       epc_clean.lighting_description = None,
       epc_clean.walls_eff_label = None,
       epc_clean.roof_eff_label = None,
       epc_clean.windows_eff_label = None,
       epc_clean.heating_eff_label = None,
       epc_clean.hot_water_eff_label = None,
       epc_clean.lighting_eff_label = None,
       epc_clean.main_fuel = None,
       epc_clean.mains_gas = None,
       epc_clean.solar_water_heating = None,
       epc_clean.solar_pv_supply_pct = None,
       epc_clean.inspection_date = None,
       epc_clean.lodgement_date = None,
       epc_clean.transaction_type = None,
       epc_clean.walls_eff_score = None,
       epc_clean.roof_eff_score = None,
       epc_clean.windows_eff_score = None,
       epc_clean.heating_eff_score = None,
       epc_clean.hot_water_eff_score = None,
       epc_clean.lighting_eff_score = None,
       epc_clean.data_quality_score = None \<rparr>"

text \<open>Rows of \<open>silver.epc_clean\<close> with given current and potential efficiency.\<close>

definition eff_row :: "int \<Rightarrow> int \<Rightarrow> epc_clean" where
  "eff_row cur pot =
     blank_clean \<lparr> epc_clean.current_efficiency := Some cur,
                   epc_clean.potential_efficiency := Some pot \<rparr>"

definition boundary_rows :: "epc_clean list" where
  "boundary_rows =
     [eff_row 60 80, eff_row 60 79, eff_row 60 70, eff_row 60 69, eff_row 60 55,
      eff_row 0 50, eff_row 50 101, blank_clean]"

definition co2_rows :: "epc_clean list" where
  "co2_rows =
     [eff_row 60 80 \<lparr> co2_current := Some 4, co2_potential := Some 2 \<rparr>,
      eff_row 60 80 \<lparr> co2_current := Some 4 \<rparr>,
      eff_row 60 80 \<lparr> co2_potential := Some 2 \<rparr>,
      eff_row 60 80]"

text \<open>A store left by an earlier, complete run.\<close>

definition store_before :: store where
  "store_before =
     \<lparr> schemas = {''bronze'', ''silver'', ''gold''},
       bronze_epc_raw = Some [blank_row \<lparr> LMK_KEY := Some ''K1'' \<rparr>],
       silver_epc_clean = Some [],
       gold_epc_features = Some [],
       gold_portfolio_agg = Some [] \<rparr>"

text \<open>Landing rows: a complete certificate with a given key and lodgement timestamp.\<close>

definition survey_row :: "string \<Rightarrow> string \<Rightarrow> epc_raw" where
  "survey_row key ts =
     blank_row \<lparr> LMK_KEY := Some key,
                 PROPERTY_TYPE := Some ''House'',
                 CURRENT_ENERGY_EFFICIENCY := Some ''58'',
                 POTENTIAL_ENERGY_EFFICIENCY := Some ''82'',
                 LODGEMENT_DATETIME := Some ts \<rparr>"

definition older_row :: epc_raw where
  "older_row = survey_row ''K1'' ''2019-05-01 09:00:00''"

definition newer_row :: epc_raw where
  "newer_row = survey_row ''K1'' ''2021-03-15 12:30:00'' \<lparr> CURRENT_ENERGY_EFFICIENCY := Some ''61'' \<rparr>"

definition newer_untyped_row :: epc_raw where
  "newer_untyped_row = survey_row ''K1'' ''2021-03-15 12:30:00'' \<lparr> PROPERTY_TYPE := None \<rparr>"

definition unparsed_row :: epc_raw where
  "unparsed_row = survey_row ''K2'' ''2020-01-01 00:00:00'' \<lparr> CURRENT_ENERGY_EFFICIENCY := Some ''N/A'' \<rparr>"

text \<open>Two complete certificates of one key lodged at the same moment.\<close>

definition tied_first_row :: epc_raw where
  "tied_first_row = survey_row ''K4'' ''2021-03-15 12:30:00''"

definition tied_second_row :: epc_raw where
  "tied_second_row =
     survey_row ''K4'' ''2021-03-15 12:30:00'' \<lparr> CURRENT_ENERGY_EFFICIENCY := Some ''61'' \<rparr>"

text \<open>The store of an earlier run, with a given landing table or a given clean table.\<close>

definition landing_store :: "epc_raw list \<Rightarrow> store" where
  "landing_store rows = store_before \<lparr> bronze_epc_raw := Some rows \<rparr>"

definition clean_store :: "epc_clean list \<Rightarrow> store" where
  "clean_store clean = store_before \<lparr> silver_epc_clean := Some clean \<rparr>"

text \<open>
  The certificate of the example in \<^verbatim>\<open>src/api/schemas.py\<close>: everything but the tenure is
  filled in.
\<close>

definition semi_detached_row :: epc_raw where
  "semi_detached_row =
     blank_row \<lparr> LMK_KEY := Some ''K3'',
                 PROPERTY_TYPE := Some ''Semi-Detached House'',
                 BUILT_FORM := Some ''Semi-Detached'',
                 CONSTRUCTION_AGE_BAND := Some ''England and Wales: 1950-1966'',
                 TOTAL_FLOOR_AREA := Some ''83'',
                 CURRENT_ENERGY_RATING := Some '' d'',
                 POTENTIAL_ENERGY_RATING := Some ''B'',
                 CURRENT_ENERGY_EFFICIENCY := Some ''58'',
                 POTENTIAL_ENERGY_EFFICIENCY := Some ''82'',
                 WALLS_DESCRIPTION := Some ''Cavity wall, filled cavity'',
                 ROOF_DESCRIPTION := Some ''Pitched, 250 mm loft insulation'',
                 WINDOWS_DESCRIPTION := Some ''Fully double glazed'',
                 MAINHEAT_DESCRIPTION := Some ''Boiler and radiators, mains gas'',
                 MAIN_FUEL := Some ''mains gas (not community)'',
                 LODGEMENT_DATETIME := Some ''2020-06-30 08:15:00'' \<rparr>"

text \<open>Clean rows with given costs: heating, hot water and lighting, current and potential.\<close>

definition cost_row ::
  "double option \<Rightarrow> double option \<Rightarrow> double option \<Rightarrow> double option
     \<Rightarrow> double option \<Rightarrow> double option \<Rightarrow> epc_clean" where
  "cost_row hc hp wc wp lc lp =
     eff_row 58 82 \<lparr> heating_cost_current := hc, heating_cost_potential := hp,
                     hot_water_cost_current := wc, hot_water_cost_potential := wp,
                     lighting_cost_current := lc, lighting_cost_potential := lp \<rparr>"

text \<open>
  Costs in pounds and pence (500.20 is not a double: the cast gives the nearest one),
  costs in whole pounds, and a row with no potential costs.
\<close>

definition pence_row :: epc_clean where
  "pence_row =
     cost_row (Some (rnd (5002 / 10))) (Some (rnd (5002 / 10))) (Some 100) None None None"

definition whole_pounds_row :: epc_clean where
  "whole_pounds_row = cost_row (Some 800) (Some 500) (Some 200) (Some 150) (Some 100) (Some 80)"

definition no_potential_row :: epc_clean where
  "no_potential_row = cost_row (Some 800) None (Some 200) None (Some 100) None"

text \<open>Clean rows of one segment: retrofit scores 10, 10, 11, and 10, 12.\<close>

definition thirds_rows :: "epc_clean list" where
  "thirds_rows = [eff_row 60 70, eff_row 60 70, eff_row 60 71]"

definition pair_rows :: "epc_clean list" where
  "pair_rows = [eff_row 60 70, eff_row 60 72]"

section \<open>Rounding to a double\<close>

lemma round_even_of_int: "round_even (of_int m) = m"
  by (simp add: round_even_def Let_def)

lemma round_even_near:
  assumes "\<bar>x - of_int n\<bar> < 1 / 2"
  shows "round_even x = n"
proof (cases "of_int n \<le> x")
  case True
  have f: "\<lfloor>x\<rfloor> = n"
    by (rule floor_unique) (use True assms in \<open>simp_all add: abs_less_iff\<close>)
  show ?thesis
    using assms True by (simp add: round_even_def Let_def f abs_less_iff)
next
  case False
  have f: "\<lfloor>x\<rfloor> = n - 1"
    by (rule floor_unique) (use False assms in \<open>simp_all add: abs_less_iff\<close>)
  show ?thesis
    using assms False by (simp add: round_even_def Let_def f abs_less_iff)
qed

lemma round_even_tie:
  assumes "x = of_int n + 1 / 2"
  shows "round_even x = (if even n then n else n + 1)"
proof -
  have f: "\<lfloor>x\<rfloor> = n"
    by (rule floor_unique) (simp_all add: assms)
  show ?thesis
    by (simp add: round_even_def Let_def f) (simp add: assms)
qed

lemma bitlen_eqI:
  assumes "1 \<le> n" "2 ^ nat (n - 1) \<le> m" "m < 2 ^ nat n"
  shows "bitlen m = n"
proof -
  have "bitlen m \<le> n" using assms by (simp add: bitlen_le_iff_power)
  moreover have "\<not> bitlen m \<le> n - 1" using assms bitlen_le_iff_power [of m "n - 1"] by simp
  ultimately show ?thesis by linarith
qed

lemma rnd_exact:
  assumes k: "k \<le> 1074" and m: "\<bar>m\<bar> < 2 ^ 53"
  shows "rnd (of_int m / 2 ^ k) = of_int m / 2 ^ k"
proof (cases "m = 0")
  case True
  then show ?thesis by (simp add: rnd_def)
next
  case False
  define j where "j = 1074 - k"
  have kj: "k + j = 1074" using k by (simp add: j_def)
  have p: "(2::rat) ^ 1074 = 2 ^ k * 2 ^ j"
    using kj by (metis power_add)
  have y: "\<bar>of_int m / 2 ^ k\<bar> * (2::rat) ^ 1074 = of_int (\<bar>m\<bar> * 2 ^ j)"
    unfolding p by (simp add: abs_divide)
  have pos: "0 < \<bar>m\<bar>" using False by simp
  have bl: "bitlen (\<bar>m\<bar> * 2 ^ j) = bitlen \<bar>m\<bar> + int j"
    using bitlen_pow2 [OF pos] by simp
  have b53: "bitlen \<bar>m\<bar> \<le> 53" using m by (simp add: bitlen_le_iff_power)
  define e where "e = nat (bitlen \<bar>m\<bar> + int j - 53)"
  have ej: "e \<le> j" using b53 by (simp add: e_def)
  then obtain d where d: "j = e + d" using le_Suc_ex by blast
  have q: "of_int (\<bar>m\<bar> * 2 ^ j) / (2::rat) ^ e = of_int (\<bar>m\<bar> * 2 ^ d)"
    by (simp add: d power_add)
  have "rnd (of_int m / 2 ^ k)
      = sgn (of_int m / 2 ^ k) * of_int (round_even (of_int (\<bar>m\<bar> * 2 ^ j) / 2 ^ e)) * 2 ^ e / 2 ^ 1074"
    unfolding rnd_def Let_def y floor_of_int bl e_def ..
  also have "\<dots> = sgn (of_int m / 2 ^ k) * of_int (\<bar>m\<bar> * 2 ^ d) * 2 ^ e / 2 ^ 1074"
    unfolding q round_even_of_int ..
  also have "\<dots> = sgn (of_int m :: rat) * of_int \<bar>m\<bar> * (2 ^ d * 2 ^ e) / (2 ^ k * 2 ^ j)"
    unfolding p by (simp add: sgn_divide)
  also have "\<dots> = sgn (of_int m :: rat) * of_int \<bar>m\<bar> / 2 ^ k"
    by (simp add: d power_add mult.commute)
  also have "\<dots> = of_int m / 2 ^ k"
    by (metis mult.commute of_int_abs sgn_mult_abs)
  finally show ?thesis .
qed

lemma rnd_of_int: "\<bar>m\<bar> < 2 ^ 53 \<Longrightarrow> rnd (of_int m) = of_int m"
  using rnd_exact [of 0 m] by simp

lemma rnd_scaled:
  fixes x :: rat
  assumes a: "a \<le> 1074 + b"
    and lo: "2 ^ 52 \<le> \<bar>x\<bar> * 2 ^ a / 2 ^ b" and hi: "\<bar>x\<bar> * 2 ^ a / 2 ^ b < 2 ^ 53"
  shows "rnd x = sgn x * of_int (round_even (\<bar>x\<bar> * 2 ^ a / 2 ^ b)) * 2 ^ b / 2 ^ a"
proof -
  define t where "t = \<bar>x\<bar> * 2 ^ a / 2 ^ b"
  define e where "e = 1074 + b - a"
  have ea: "e + a = 1074 + b" using a by (simp add: e_def)
  have pw: "(2::rat) ^ 1074 * 2 ^ b = 2 ^ e * 2 ^ a"
    by (metis ea power_add)
  have y: "\<bar>x\<bar> * 2 ^ 1074 = t * 2 ^ e"
  proof -
    have "t * 2 ^ e * 2 ^ b = \<bar>x\<bar> * (2 ^ e * 2 ^ a)" by (simp add: t_def)
    also have "\<dots> = \<bar>x\<bar> * (2 ^ 1074 * 2 ^ b)" by (simp only: pw)
    finally have "t * 2 ^ e * 2 ^ b = \<bar>x\<bar> * 2 ^ 1074 * 2 ^ b" by (simp only: mult.assoc)
    then show ?thesis by simp
  qed
  have lo': "(2::rat) ^ (52 + e) \<le> t * 2 ^ e"
    using lo by (simp add: t_def [symmetric] power_add)
  have hi': "t * 2 ^ e < (2::rat) ^ (53 + e)"
    using hi by (simp add: t_def [symmetric] power_add)
  have fl: "(2::int) ^ (52 + e) \<le> \<lfloor>t * 2 ^ e\<rfloor>"
  proof -
    have "rat_of_int (2 ^ (52 + e)) \<le> t * 2 ^ e" using lo' by simp
    then show ?thesis by (simp only: le_floor_iff)
  qed
  have fh: "\<lfloor>t * 2 ^ e\<rfloor> < (2::int) ^ (53 + e)"
  proof -
    have "t * 2 ^ e < rat_of_int (2 ^ (53 + e))" using hi' by simp
    then show ?thesis by (simp only: floor_less_iff)
  qed
  have eq1: "nat (int (53 + e) - 1) = 52 + e" and eq2: "nat (int (53 + e)) = 53 + e"
    by simp_all
  have bl: "bitlen \<lfloor>t * 2 ^ e\<rfloor> = int (53 + e)"
  proof (rule bitlen_eqI)
    show "1 \<le> int (53 + e)" by simp
    show "2 ^ nat (int (53 + e) - 1) \<le> \<lfloor>t * 2 ^ e\<rfloor>" unfolding eq1 by (rule fl)
    show "\<lfloor>t * 2 ^ e\<rfloor> < 2 ^ nat (int (53 + e))" unfolding eq2 by (rule fh)
  qed
  have ne: "nat (bitlen \<lfloor>t * 2 ^ e\<rfloor> - 53) = e"
    by (simp add: bl)
  have "rnd x = sgn x * of_int (round_even (t * 2 ^ e / 2 ^ e)) * 2 ^ e / 2 ^ 1074"
    unfolding rnd_def Let_def y ne ..
  also have "\<dots> = sgn x * of_int (round_even t) * (2 ^ e * 2 ^ a) / (2 ^ 1074 * 2 ^ a)"
    by simp
  also have "\<dots> = sgn x * of_int (round_even t) * (2 ^ 1074 * 2 ^ b) / (2 ^ 1074 * 2 ^ a)"
    by (simp only: pw)
  also have "\<dots> = sgn x * of_int (round_even t) * 2 ^ b / 2 ^ a"
    by simp
  finally show ?thesis by (simp only: t_def)
qed

lemma rnd_0: "rnd 0 = 0"
  by (simp add: rnd_def)

lemma rnd_numeral: "numeral n < (2::int) ^ 53 \<Longrightarrow> rnd (numeral n) = numeral n"
  using rnd_of_int [of "numeral n"] by simp

lemma dadd_int: "\<bar>a + b\<bar> < 2 ^ 53 \<Longrightarrow> dadd (of_int a) (of_int b) = of_int (a + b)"
  unfolding dadd_def using rnd_of_int [of "a + b"] by simp

lemma dsub_int: "\<bar>a - b\<bar> < 2 ^ 53 \<Longrightarrow> dsub (of_int a) (of_int b) = of_int (a - b)"
  unfolding dsub_def using rnd_of_int [of "a - b"] by simp

lemma whole_costs_exact:
  fixes m1 m2 m3 m4 m5 m6 :: int
  assumes "\<bar>m1\<bar> \<le> 2 ^ 50" "\<bar>m2\<bar> \<le> 2 ^ 50" "\<bar>m3\<bar> \<le> 2 ^ 50"
    "\<bar>m4\<bar> \<le> 2 ^ 50" "\<bar>m5\<bar> \<le> 2 ^ 50" "\<bar>m6\<bar> \<le> 2 ^ 50"
  shows "dadd (dadd (dsub (of_int m1) (of_int m2)) (dsub (of_int m3) (of_int m4)))
              (dsub (of_int m5) (of_int m6))
           = of_int (m1 - m2 + (m3 - m4) + (m5 - m6))"
    and "dadd (dadd (of_int m1) (of_int m3)) (of_int m5) = of_int (m1 + m3 + m5)"
    and "dadd (dadd (of_int m2) (of_int m4)) (of_int m6) = of_int (m2 + m4 + m6)"
    and "dsub (of_int (m1 + m3 + m5)) (of_int (m2 + m4 + m6))
           = of_int (m1 - m2 + (m3 - m4) + (m5 - m6))"
proof -
  have s12: "dsub (of_int m1) (of_int m2) = of_int (m1 - m2)"
    by (rule dsub_int) (use assms in \<open>simp add: abs_le_iff abs_less_iff\<close>)
  have s34: "dsub (of_int m3) (of_int m4) = of_int (m3 - m4)"
    by (rule dsub_int) (use assms in \<open>simp add: abs_le_iff abs_less_iff\<close>)
  have s56: "dsub (of_int m5) (of_int m6) = of_int (m5 - m6)"
    by (rule dsub_int) (use assms in \<open>simp add: abs_le_iff abs_less_iff\<close>)
  have a1: "dadd (of_int (m1 - m2)) (of_int (m3 - m4)) = of_int (m1 - m2 + (m3 - m4))"
    by (rule dadd_int) (use assms in \<open>simp add: abs_le_iff abs_less_iff\<close>)
  have a2: "dadd (of_int (m1 - m2 + (m3 - m4))) (of_int (m5 - m6))
      = of_int (m1 - m2 + (m3 - m4) + (m5 - m6))"
    by (rule dadd_int) (use assms in \<open>simp add: abs_le_iff abs_less_iff\<close>)
  show "dadd (dadd (dsub (of_int m1) (of_int m2)) (dsub (of_int m3) (of_int m4)))
              (dsub (of_int m5) (of_int m6))
           = of_int (m1 - m2 + (m3 - m4) + (m5 - m6))"
    unfolding s12 s34 s56 a1 a2 ..
  have c1: "dadd (of_int m1) (of_int m3) = of_int (m1 + m3)"
    by (rule dadd_int) (use assms in \<open>simp add: abs_le_iff abs_less_iff\<close>)
  have c2: "dadd (of_int (m1 + m3)) (of_int m5) = of_int (m1 + m3 + m5)"
    by (rule dadd_int) (use assms in \<open>simp add: abs_le_iff abs_less_iff\<close>)
  show "dadd (dadd (of_int m1) (of_int m3)) (of_int m5) = of_int (m1 + m3 + m5)"
    unfolding c1 c2 ..
  have d1: "dadd (of_int m2) (of_int m4) = of_int (m2 + m4)"
    by (rule dadd_int) (use assms in \<open>simp add: abs_le_iff abs_less_iff\<close>)
  have d2: "dadd (of_int (m2 + m4)) (of_int m6) = of_int (m2 + m4 + m6)"
    by (rule dadd_int) (use assms in \<open>simp add: abs_le_iff abs_less_iff\<close>)
  show "dadd (dadd (of_int m2) (of_int m4)) (of_int m6) = of_int (m2 + m4 + m6)"
    unfolding d1 d2 ..
  have "dsub (of_int (m1 + m3 + m5)) (of_int (m2 + m4 + m6))
      = of_int (m1 + m3 + m5 - (m2 + m4 + m6))"
    by (rule dsub_int) (use assms in \<open>simp add: abs_le_iff abs_less_iff\<close>)
  also have "m1 + m3 + m5 - (m2 + m4 + m6) = m1 - m2 + (m3 - m4) + (m5 - m6)" by simp
  finally show "dsub (of_int (m1 + m3 + m5)) (of_int (m2 + m4 + m6))
           = of_int (m1 - m2 + (m3 - m4) + (m5 - m6))" .
qed

lemma no_potential_costs:
  assumes "is_double a" "is_double b" "is_double d"
  shows "dadd (dadd (dsub a 0) (dsub b 0)) (dsub d 0) = dadd (dadd a b) d"
    and "dadd (dadd 0 0) 0 = 0"
  using assms by (simp_all add: is_double_def dsub_def dadd_def rnd_0)

lemma count_true_Cons:
  "int (length (filter (\<lambda>x. x) (p # ps))) = bool_int p + int (length (filter (\<lambda>x. x) ps))"
  by (simp add: bool_int_def)

lemma quality_of_count:
  assumes "n \<le> 8"
  shows "ROUND (ddiv (100 * of_int (int n)) 8) = of_int (round (100 * rat_of_nat n / 8))
         \<and> 0 \<le> round (100 * rat_of_nat n / 8) \<and> round (100 * rat_of_nat n / 8) \<le> 100"
proof -
  have h: "100 * rat_of_int (int n) / 8 = of_int (25 * int n) / 2 ^ 1" by simp
  have d: "ddiv (100 * of_int (int n)) 8 = 100 * rat_of_nat n / 8"
    unfolding ddiv_def h
    by (subst rnd_exact) (use assms in simp_all)
  have nn: "0 \<le> 100 * rat_of_nat n / 8" by simp
  have ra: "round_away (100 * rat_of_nat n / 8) = round (100 * rat_of_nat n / 8)"
    using nn by (simp add: round_away_def round_def)
  have "100 * rat_of_nat n / 8 \<le> 100" using assms by simp
  then have up: "round (100 * rat_of_nat n / 8) \<le> round (100::rat)" by (rule round_mono)
  have lo: "round (0::rat) \<le> round (100 * rat_of_nat n / 8)" using nn by (rule round_mono)
  have b: "0 \<le> round (100 * rat_of_nat n / 8)" "round (100 * rat_of_nat n / 8) \<le> 100"
    using up lo by simp_all
  have "ROUND (ddiv (100 * of_int (int n)) 8) = rnd (of_int (round (100 * rat_of_nat n / 8)))"
    unfolding ROUND_def d ra ..
  also have "\<dots> = of_int (round (100 * rat_of_nat n / 8))"
    by (rule rnd_of_int) (use b in simp)
  finally show ?thesis using b by simp
qed

section \<open>What the runs store\<close>

text \<open>
  \<^verbatim>\<open>silver.run\<close> stores the result of its query on the landing table, and \<^verbatim>\<open>gold.run\<close>
  the results of its two queries: the first on the clean table, the second on the
  feature table it has just written.
\<close>

lemma silver_run_clean:
  "bronze_epc_raw st = Some rows \<Longrightarrow>
     silver_epc_clean (fst (silver_run cs st)) = Some (silver_select cs rows)"
  by (simp add: silver_run_def create_schema_def Let_def)

lemma gold_run_features:
  "silver_epc_clean st = Some clean \<Longrightarrow>
     gold_epc_features (fst (gold_run st)) = Some (features_select clean)"
  by (simp add: gold_run_def create_schema_def Let_def)

lemma gold_run_portfolio:
  "silver_epc_clean st = Some clean \<Longrightarrow>
     gold_portfolio_agg (fst (gold_run st)) = Some (portfolio_select (features_select clean))"
  by (simp add: gold_run_def create_schema_def Let_def)

section \<open>Properties of the clean table\<close>

subsection \<open>Row numbers\<close>

lemma sorts_before_asym: "sorts_before a b \<Longrightarrow> \<not> sorts_before b a"
  by (auto simp: sorts_before_def split: option.splits)

lemma sorts_before_irrefl: "\<not> sorts_before a a"
  by (auto simp: sorts_before_def split: option.splits)

lemma not_sorts_before_iff:
  "\<not> sorts_before a b \<longleftrightarrow> (\<forall>x. a = Some x \<longrightarrow> (\<exists>y. b = Some y \<and> x \<le> y))"
  by (auto simp: sorts_before_def split: option.splits)

lemma sorts_before_iff:
  "sorts_before a b \<longleftrightarrow> (\<exists>x. a = Some x \<and> (\<forall>y. b = Some y \<longrightarrow> y < x))"
  by (auto simp: sorts_before_def split: option.splits)

lemma number_rows_fst: "map fst (number_rows seen rest) = rest"
  by (induction rest arbitrary: seen) simp_all

lemma number_rows_mem: "(q, m) \<in> set (number_rows seen rest) \<Longrightarrow> q \<in> set rest"
  by (metis number_rows_fst fst_conv image_eqI set_map)

lemma rank_after_earlier:
  assumes "(q, m) \<in> set (number_rows seen rest)" "s \<in> set seen"
    "LMK_KEY s = LMK_KEY q" "\<not> sorts_before (LODGEMENT_DATETIME q) (LODGEMENT_DATETIME s)"
  shows "m \<noteq> 1"
  using assms
proof (induction rest arbitrary: seen)
  case Nil
  then show ?case by simp
next
  case (Cons x rest)
  from Cons.prems(1) consider
      (head) "q = x" "m = Suc (length (filter (\<lambda>q'. LMK_KEY q' = LMK_KEY x \<and>
                  \<not> sorts_before (LODGEMENT_DATETIME x) (LODGEMENT_DATETIME q')) seen)
            + length (filter (\<lambda>q'. LMK_KEY q' = LMK_KEY x \<and>
                  sorts_before (LODGEMENT_DATETIME q') (LODGEMENT_DATETIME x)) rest))"
    | (tail) "(q, m) \<in> set (number_rows (x # seen) rest)"
    by auto
  then show ?case
  proof cases
    case head
    have "s \<in> set (filter (\<lambda>q'. LMK_KEY q' = LMK_KEY x \<and>
                  \<not> sorts_before (LODGEMENT_DATETIME x) (LODGEMENT_DATETIME q')) seen)"
      using Cons.prems head(1) by simp
    then have "0 < length (filter (\<lambda>q'. LMK_KEY q' = LMK_KEY x \<and>
                  \<not> sorts_before (LODGEMENT_DATETIME x) (LODGEMENT_DATETIME q')) seen)"
      by (metis length_pos_if_in_set)
    with head(2) show ?thesis by simp
  next
    case tail
    show ?thesis
      by (rule Cons.IH [OF tail _ Cons.prems(3,4)]) (simp add: Cons.prems(2))
  qed
qed

lemma rank_one_latest:
  assumes "(r, 1) \<in> set (number_rows seen rest)" "q \<in> set seen \<union> set rest"
    "LMK_KEY q = LMK_KEY r"
  shows "\<not> sorts_before (LODGEMENT_DATETIME q) (LODGEMENT_DATETIME r)"
  using assms
proof (induction rest arbitrary: seen)
  case Nil
  then show ?case by simp
next
  case (Cons x rest)
  from Cons.prems(1) consider
      (head) "r = x" "filter (\<lambda>q'. LMK_KEY q' = LMK_KEY x \<and>
                  \<not> sorts_before (LODGEMENT_DATETIME x) (LODGEMENT_DATETIME q')) seen = []"
             "filter (\<lambda>q'. LMK_KEY q' = LMK_KEY x \<and>
                  sorts_before (LODGEMENT_DATETIME q') (LODGEMENT_DATETIME x)) rest = []"
    | (tail) "(r, 1) \<in> set (number_rows (x # seen) rest)"
    by auto
  then show ?case
  proof cases
    case head
    from Cons.prems(2) consider "q \<in> set seen" | "q = x" | "q \<in> set rest" by auto
    then show ?thesis
    proof cases
      case 1
      with head(2) Cons.prems(3) head(1)
      have "sorts_before (LODGEMENT_DATETIME r) (LODGEMENT_DATETIME q)"
        by (auto simp: filter_empty_conv)
      then show ?thesis by (rule sorts_before_asym)
    next
      case 2
      then show ?thesis using head(1) by (simp add: sorts_before_irrefl)
    next
      case 3
      with head(3) Cons.prems(3) head(1) show ?thesis
        by (auto simp: filter_empty_conv)
    qed
  next
    case tail
    show ?thesis
      by (rule Cons.IH [OF tail _ Cons.prems(3)]) (use Cons.prems(2) in auto)
  qed
qed

lemma rank_one_unique:
  "length (filter (\<lambda>p. LMK_KEY (fst p) = k \<and> snd p = 1) (number_rows seen rest)) \<le> 1"
proof (induction rest arbitrary: seen)
  case Nil
  then show ?case by simp
next
  case (Cons x rest)
  define n where "n = Suc (length (filter (\<lambda>q'. LMK_KEY q' = LMK_KEY x \<and>
                  \<not> sorts_before (LODGEMENT_DATETIME x) (LODGEMENT_DATETIME q')) seen)
            + length (filter (\<lambda>q'. LMK_KEY q' = LMK_KEY x \<and>
                  sorts_before (LODGEMENT_DATETIME q') (LODGEMENT_DATETIME x)) rest))"
  have unf: "number_rows seen (x # rest) = (x, n) # number_rows (x # seen) rest"
    by (simp add: n_def)
  show ?case
  proof (cases "LMK_KEY x = k \<and> n = 1")
    case True
    then have n1: "n = 1" by simp
    have e: "filter (\<lambda>q'. LMK_KEY q' = LMK_KEY x \<and>
                  sorts_before (LODGEMENT_DATETIME q') (LODGEMENT_DATETIME x)) rest = []"
      using n1 unfolding n_def by simp
    have "filter (\<lambda>p. LMK_KEY (fst p) = k \<and> snd p = 1) (number_rows (x # seen) rest) = []"
    proof (simp only: filter_empty_conv, intro ballI notI)
      fix p assume p: "p \<in> set (number_rows (x # seen) rest)"
        and pk: "LMK_KEY (fst p) = k \<and> snd p = 1"
      obtain q m where qm: "p = (q, m)" by (cases p)
      have qr: "q \<in> set rest" using p qm number_rows_mem by blast
      have nb: "\<not> sorts_before (LODGEMENT_DATETIME q) (LODGEMENT_DATETIME x)"
        using e qr pk qm True by (auto simp: filter_empty_conv)
      have "m \<noteq> 1"
        by (rule rank_after_earlier [OF p [unfolded qm], of x]) (use pk qm True nb in auto)
      with pk qm show False by simp
    qed
    then show ?thesis unfolding unf using True by simp
  next
    case False
    then show ?thesis unfolding unf using Cons.IH [of "x # seen"] by auto
  qed
qed

lemma rank_one_of_latest:
  assumes "r \<in> set rest" "r \<notin> set seen"
    "\<forall>q \<in> set seen \<union> set rest. LMK_KEY q = LMK_KEY r \<and> q \<noteq> r \<longrightarrow>
        sorts_before (LODGEMENT_DATETIME r) (LODGEMENT_DATETIME q)"
  shows "(r, 1) \<in> set (number_rows seen rest)"
  using assms
proof (induction rest arbitrary: seen)
  case Nil
  then show ?case by simp
next
  case (Cons x rest)
  show ?case
  proof (cases "x = r")
    case True
    have a: "filter (\<lambda>q'. LMK_KEY q' = LMK_KEY r \<and>
                  \<not> sorts_before (LODGEMENT_DATETIME r) (LODGEMENT_DATETIME q')) seen = []"
      using Cons.prems(2,3) by (auto simp: filter_empty_conv)
    have b: "filter (\<lambda>q'. LMK_KEY q' = LMK_KEY r \<and>
                  sorts_before (LODGEMENT_DATETIME q') (LODGEMENT_DATETIME r)) rest = []"
      using Cons.prems(3) sorts_before_asym sorts_before_irrefl
      by (fastforce simp: filter_empty_conv)
    show ?thesis using True a b by simp
  next
    case False
    have "(r, 1) \<in> set (number_rows (x # seen) rest)"
      by (rule Cons.IH) (use False Cons.prems in auto)
    then show ?thesis by simp
  qed
qed

lemma length_filter_mono:
  "(\<And>x. x \<in> set xs \<Longrightarrow> P x \<Longrightarrow> Q x) \<Longrightarrow> length (filter P xs) \<le> length (filter Q xs)"
  by (induction xs) auto

lemma lmk_key_scored_base: "epc_clean.lmk_key (scored (base cs r)) = LMK_KEY r"
  by (simp add: scored_def base_def)

lemma silver_select_key:
  "filter (\<lambda>c. epc_clean.lmk_key c = k) (silver_select cs rows)
     = map (\<lambda>p. scored (base cs (fst p)))
         (filter (\<lambda>p. LMK_KEY (fst p) = k \<and> base_where p) (deduped rows))"
  by (simp add: silver_select_def filter_map o_def lmk_key_scored_base conj_commute)

lemma silver_select_mem:
  "c \<in> set (silver_select cs rows) \<longleftrightarrow>
     (\<exists>r. (r, 1) \<in> set (deduped rows) \<and> c = scored (base cs r)
        \<and> CURRENT_ENERGY_EFFICIENCY r \<noteq> None \<and> POTENTIAL_ENERGY_EFFICIENCY r \<noteq> None
        \<and> PROPERTY_TYPE r \<noteq> None)"
  by (auto simp: silver_select_def base_where_def is_not_null_def image_iff)

lemma at_most_one_per_key:
  "length (filter (\<lambda>c. epc_clean.lmk_key c = k) (silver_select cs rows)) \<le> 1"
proof -
  have "length (filter (\<lambda>p. LMK_KEY (fst p) = k \<and> base_where p) (deduped rows))
      \<le> length (filter (\<lambda>p. LMK_KEY (fst p) = k \<and> snd p = 1) (deduped rows))"
    by (rule length_filter_mono) (auto simp: base_where_def)
  also have "\<dots> \<le> 1" unfolding deduped_def by (rule rank_one_unique)
  finally show ?thesis by (simp add: silver_select_key)
qed

lemma only_element: "x \<in> set ys \<Longrightarrow> length ys \<le> 1 \<Longrightarrow> ys = [x]"
  by (cases ys) auto

lemma deduped_mem: "(r, n) \<in> set (deduped rows) \<Longrightarrow> r \<in> set rows"
  unfolding deduped_def by (rule number_rows_mem)

lemma sorts_before_trans:
  "sorts_before a b \<Longrightarrow> sorts_before b c \<Longrightarrow> sorts_before a c"
  by (auto simp: sorts_before_def split: option.splits)

lemma sorts_before_neg_trans:
  "\<not> sorts_before a b \<Longrightarrow> \<not> sorts_before b c \<Longrightarrow> \<not> sorts_before a c"
  by (auto simp: sorts_before_def split: option.splits)

lemma rank_one_split:
  assumes "\<forall>q \<in> set seen \<union> set pre. LMK_KEY q = LMK_KEY r \<longrightarrow>
             sorts_before (LODGEMENT_DATETIME r) (LODGEMENT_DATETIME q)"
    "\<forall>q \<in> set post. LMK_KEY q = LMK_KEY r \<longrightarrow>
             \<not> sorts_before (LODGEMENT_DATETIME q) (LODGEMENT_DATETIME r)"
  shows "(r, 1) \<in> set (number_rows seen (pre @ r # post))"
  using assms
proof (induction pre arbitrary: seen)
  case Nil
  have a: "filter (\<lambda>q. LMK_KEY q = LMK_KEY r \<and>
              \<not> sorts_before (LODGEMENT_DATETIME r) (LODGEMENT_DATETIME q)) seen = []"
    using Nil.prems(1) by (auto simp: filter_empty_conv)
  have b: "filter (\<lambda>q. LMK_KEY q = LMK_KEY r \<and>
              sorts_before (LODGEMENT_DATETIME q) (LODGEMENT_DATETIME r)) post = []"
    using Nil.prems(2) by (auto simp: filter_empty_conv)
  show ?case by (simp add: a b)
next
  case (Cons x pre)
  have "(r, 1) \<in> set (number_rows (x # seen) (pre @ r # post))"
    by (rule Cons.IH) (use Cons.prems in auto)
  then show ?case by simp
qed

lemma first_latest_exists:
  assumes "x \<in> set rows" "LMK_KEY x = k"
  shows "\<exists>pre r post. rows = pre @ r # post \<and> LMK_KEY r = k
           \<and> (\<forall>q \<in> set pre. LMK_KEY q = k \<longrightarrow>
                 sorts_before (LODGEMENT_DATETIME r) (LODGEMENT_DATETIME q))
           \<and> (\<forall>q \<in> set post. LMK_KEY q = k \<longrightarrow>
                 \<not> sorts_before (LODGEMENT_DATETIME q) (LODGEMENT_DATETIME r))"
  using assms
proof (induction rows arbitrary: x)
  case Nil
  then show ?case by simp
next
  case (Cons y ys)
  show ?case
  proof (cases "\<exists>z \<in> set ys. LMK_KEY z = k")
    case False
    with Cons.prems have yk: "LMK_KEY y = k" by auto
    have "y # ys = [] @ y # ys \<and> LMK_KEY y = k
           \<and> (\<forall>q \<in> set []. LMK_KEY q = k \<longrightarrow>
                 sorts_before (LODGEMENT_DATETIME y) (LODGEMENT_DATETIME q))
           \<and> (\<forall>q \<in> set ys. LMK_KEY q = k \<longrightarrow>
                 \<not> sorts_before (LODGEMENT_DATETIME q) (LODGEMENT_DATETIME y))"
      using False yk by auto
    then show ?thesis by blast
  next
    case True
    then obtain z where z: "z \<in> set ys" "LMK_KEY z = k" by blast
    from Cons.IH [OF z] obtain pre r post where d: "ys = pre @ r # post" "LMK_KEY r = k"
      and before: "\<forall>q \<in> set pre. LMK_KEY q = k \<longrightarrow>
                 sorts_before (LODGEMENT_DATETIME r) (LODGEMENT_DATETIME q)"
      and after: "\<forall>q \<in> set post. LMK_KEY q = k \<longrightarrow>
                 \<not> sorts_before (LODGEMENT_DATETIME q) (LODGEMENT_DATETIME r)"
      by blast
    show ?thesis
    proof (cases "LMK_KEY y = k \<and> \<not> sorts_before (LODGEMENT_DATETIME r) (LODGEMENT_DATETIME y)")
      case True
      have "\<not> sorts_before (LODGEMENT_DATETIME q) (LODGEMENT_DATETIME y)"
        if q: "q \<in> set ys" "LMK_KEY q = k" for q
      proof -
        have "\<not> sorts_before (LODGEMENT_DATETIME q) (LODGEMENT_DATETIME r)"
        proof -
          from q(1) d(1) consider "q \<in> set pre" | "q = r" | "q \<in> set post" by auto
          then show ?thesis
          proof cases
            case 1
            with before q(2) show ?thesis by (auto dest: sorts_before_asym)
          next
            case 2
            then show ?thesis by (simp add: sorts_before_irrefl)
          next
            case 3
            with after q(2) show ?thesis by auto
          qed
        qed
        with True show ?thesis by (auto dest: sorts_before_neg_trans)
      qed
      then have "y # ys = [] @ y # ys \<and> LMK_KEY y = k
           \<and> (\<forall>q \<in> set []. LMK_KEY q = k \<longrightarrow>
                 sorts_before (LODGEMENT_DATETIME y) (LODGEMENT_DATETIME q))
           \<and> (\<forall>q \<in> set ys. LMK_KEY q = k \<longrightarrow>
                 \<not> sorts_before (LODGEMENT_DATETIME q) (LODGEMENT_DATETIME y))"
        using True by auto
      then show ?thesis by blast
    next
      case False
      have "y # ys = (y # pre) @ r # post \<and> LMK_KEY r = k
           \<and> (\<forall>q \<in> set (y # pre). LMK_KEY q = k \<longrightarrow>
                 sorts_before (LODGEMENT_DATETIME r) (LODGEMENT_DATETIME q))
           \<and> (\<forall>q \<in> set post. LMK_KEY q = k \<longrightarrow>
                 \<not> sorts_before (LODGEMENT_DATETIME q) (LODGEMENT_DATETIME r))"
        using False d before after by auto
      then show ?thesis by blast
    qed
  qed
qed

lemma key_rows_of_rank_one:
  assumes "(r, 1) \<in> set (deduped rows)" "LMK_KEY r = k"
  shows "filter (\<lambda>c. epc_clean.lmk_key c = k) (silver_select cs rows)
           = (if CURRENT_ENERGY_EFFICIENCY r \<noteq> None
                 \<and> POTENTIAL_ENERGY_EFFICIENCY r \<noteq> None
                 \<and> PROPERTY_TYPE r \<noteq> None
              then [scored (base cs r)] else [])"
proof -
  let ?P = "\<lambda>p. LMK_KEY (fst p) = k \<and> snd p = (1::nat)"
  have "(r, 1) \<in> set (filter ?P (deduped rows))"
    using assms by simp
  moreover have "length (filter ?P (deduped rows)) \<le> 1"
    unfolding deduped_def by (rule rank_one_unique)
  ultimately have one: "filter ?P (deduped rows) = [(r, 1)]"
    by (rule only_element)
  have split: "filter (\<lambda>p. LMK_KEY (fst p) = k \<and> base_where p) (deduped rows)
      = filter base_where (filter ?P (deduped rows))"
    by (auto simp: base_where_def intro: filter_cong)
  show ?thesis
    unfolding silver_select_key split one
    by (simp add: base_where_def is_not_null_def)
qed

lemma first_latest_kept:
  assumes "rows = pre @ r # post" "LMK_KEY r = k"
    "\<forall>q \<in> set pre. LMK_KEY q = k \<longrightarrow>
        sorts_before (LODGEMENT_DATETIME r) (LODGEMENT_DATETIME q)"
    "\<forall>q \<in> set post. LMK_KEY q = k \<longrightarrow>
        \<not> sorts_before (LODGEMENT_DATETIME q) (LODGEMENT_DATETIME r)"
  shows "filter (\<lambda>c. epc_clean.lmk_key c = k) (silver_select cs rows)
           = (if CURRENT_ENERGY_EFFICIENCY r \<noteq> None
                 \<and> POTENTIAL_ENERGY_EFFICIENCY r \<noteq> None
                 \<and> PROPERTY_TYPE r \<noteq> None
              then [scored (base cs r)] else [])"
proof -
  have "(r, 1) \<in> set (number_rows [] (pre @ r # post))"
    by (rule rank_one_split) (use assms in auto)
  then have "(r, 1) \<in> set (deduped rows)"
    by (simp add: deduped_def assms(1))
  then show ?thesis using assms(2) by (rule key_rows_of_rank_one)
qed

lemma dedup_latest_complete:
  "deduped [older_row, newer_row] = [(older_row, 2), (newer_row, 1)]"
  by (simp add: deduped_def sorts_before_def older_row_def newer_row_def survey_row_def)

lemma dedup_latest_untyped:
  "deduped [older_row, newer_untyped_row] = [(older_row, 2), (newer_untyped_row, 1)]"
  by (simp add: deduped_def sorts_before_def older_row_def newer_untyped_row_def survey_row_def)

lemma dedup_tied:
  "deduped [tied_first_row, tied_second_row] = [(tied_first_row, 1), (tied_second_row, 2)]"
  by (simp add: deduped_def sorts_before_def tied_first_row_def tied_second_row_def survey_row_def)

lemma tied_kept:
  "silver_select plain_casts [tied_first_row, tied_second_row]
     = [scored (base plain_casts tied_first_row)]"
  unfolding silver_select_def dedup_tied
  by (simp add: base_where_def is_not_null_def tied_first_row_def survey_row_def)

lemma latest_kept:
  "silver_select plain_casts [older_row, newer_row] = [scored (base plain_casts newer_row)]"
  unfolding silver_select_def dedup_latest_complete
  by (simp add: base_where_def is_not_null_def newer_row_def survey_row_def)

lemma unparsed_kept:
  "silver_select plain_casts [unparsed_row] = [scored (base plain_casts unparsed_row)]"
  by (simp add: silver_select_def deduped_def base_where_def is_not_null_def
      unparsed_row_def survey_row_def)

subsection \<open>Deduplication\<close>

text \<open>
  C2, as the code has it. \<^verbatim>\<open>silver.run\<close> stores the result of its query on the landing
  table. The rank is computed over all landing rows of a key and the mandatory columns
  are tested afterwards, on the rank-1 row only; timestamps are text and are compared
  as text, character by character, a missing timestamp below every other. So for every
  business key at most one row reaches \<open>silver.epc_clean\<close>, and a row that does comes
  from a landing row whose timestamp is greatest among the rows of its key. A key that
  is on a landing row has a candidate row: the one with the greatest timestamp, and of
  several with the greatest timestamp the one that comes first in the table (every row
  of the key before it is strictly older, no row after it is newer). The rows of the key
  in the clean table are exactly the candidate if its three mandatory columns are
  present, and none at all if one is missing, whatever the other rows of the key hold.
  In particular a key whose latest row is strictly later than its others is decided by
  that row, and a key whose landing rows all have the three columns has exactly one
  clean row, ties or not.
\<close>

theorem dedup_keeps_latest:
  assumes "bronze_epc_raw st = Some rows"
  shows "silver_epc_clean (fst (silver_run cs st)) = Some (silver_select cs rows)
   \<and> length (filter (\<lambda>c. epc_clean.lmk_key c = k) (silver_select cs rows)) \<le> 1
   \<and> (\<forall>c \<in> set (silver_select cs rows). \<exists>r \<in> set rows.
          c = scored (base cs r) \<and> epc_clean.lmk_key c = LMK_KEY r
          \<and> (\<forall>q \<in> set rows. LMK_KEY q = LMK_KEY r \<longrightarrow>
                (\<forall>tq. LODGEMENT_DATETIME q = Some tq \<longrightarrow>
                   (\<exists>tr. LODGEMENT_DATETIME r = Some tr \<and> tq \<le> tr))))
   \<and> (\<forall>r \<in> set rows. \<forall>tr.
          LMK_KEY r = k \<and> LODGEMENT_DATETIME r = Some tr
          \<and> (\<forall>q \<in> set rows. LMK_KEY q = k \<and> q \<noteq> r \<longrightarrow>
                (\<forall>tq. LODGEMENT_DATETIME q = Some tq \<longrightarrow> tq < tr))
          \<longrightarrow> filter (\<lambda>c. epc_clean.lmk_key c = k) (silver_select cs rows)
                = (if CURRENT_ENERGY_EFFICIENCY r \<noteq> None
                      \<and> POTENTIAL_ENERGY_EFFICIENCY r \<noteq> None
                      \<and> PROPERTY_TYPE r \<noteq> None
                   then [scored (base cs r)] else []))
   \<and> (\<forall>x \<in> set rows. LMK_KEY x = k \<longrightarrow>
          (\<exists>pre r post. rows = pre @ r # post \<and> LMK_KEY r = k
             \<and> (\<forall>q \<in> set pre. LMK_KEY q = k \<longrightarrow>
                   sorts_before (LODGEMENT_DATETIME r) (LODGEMENT_DATETIME q))
             \<and> (\<forall>q \<in> set post. LMK_KEY q = k \<longrightarrow>
                   \<not> sorts_before (LODGEMENT_DATETIME q) (LODGEMENT_DATETIME r))
             \<and> filter (\<lambda>c. epc_clean.lmk_key c = k) (silver_select cs rows)
                 = (if CURRENT_ENERGY_EFFICIENCY r \<noteq> None
                       \<and> POTENTIAL_ENERGY_EFFICIENCY r \<noteq> None
                       \<and> PROPERTY_TYPE r \<noteq> None
                    then [scored (base cs r)] else [])))
   \<and> ((\<exists>x \<in> set rows. LMK_KEY x = k)
        \<and> (\<forall>q \<in> set rows. LMK_KEY q = k \<longrightarrow>
              CURRENT_ENERGY_EFFICIENCY q \<noteq> None
              \<and> POTENTIAL_ENERGY_EFFICIENCY q \<noteq> None
              \<and> PROPERTY_TYPE q \<noteq> None)
        \<longrightarrow> length (filter (\<lambda>c. epc_clean.lmk_key c = k) (silver_select cs rows)) = 1)"
proof (intro conjI ballI allI impI)
  show "silver_epc_clean (fst (silver_run cs st)) = Some (silver_select cs rows)"
    using assms by (rule silver_run_clean)
next
  show "length (filter (\<lambda>c. epc_clean.lmk_key c = k) (silver_select cs rows)) \<le> 1"
    by (rule at_most_one_per_key)
next
  fix c assume "c \<in> set (silver_select cs rows)"
  then obtain r where r: "(r, 1) \<in> set (deduped rows)" "c = scored (base cs r)"
    by (auto simp: silver_select_mem)
  have mem: "r \<in> set rows" using r(1) by (rule deduped_mem)
  have "\<forall>q \<in> set rows. LMK_KEY q = LMK_KEY r \<longrightarrow>
          (\<forall>tq. LODGEMENT_DATETIME q = Some tq \<longrightarrow>
             (\<exists>tr. LODGEMENT_DATETIME r = Some tr \<and> tq \<le> tr))"
  proof (intro ballI impI allI)
    fix q tq assume q: "q \<in> set rows" "LMK_KEY q = LMK_KEY r" "LODGEMENT_DATETIME q = Some tq"
    have "\<not> sorts_before (LODGEMENT_DATETIME q) (LODGEMENT_DATETIME r)"
      by (rule rank_one_latest [OF r(1) [unfolded deduped_def]]) (use q in auto)
    with q(3) show "\<exists>tr. LODGEMENT_DATETIME r = Some tr \<and> tq \<le> tr"
      by (simp add: not_sorts_before_iff)
  qed
  with mem r(2) show "\<exists>r \<in> set rows.
          c = scored (base cs r) \<and> epc_clean.lmk_key c = LMK_KEY r
          \<and> (\<forall>q \<in> set rows. LMK_KEY q = LMK_KEY r \<longrightarrow>
                (\<forall>tq. LODGEMENT_DATETIME q = Some tq \<longrightarrow>
                   (\<exists>tr. LODGEMENT_DATETIME r = Some tr \<and> tq \<le> tr)))"
    by (auto simp: lmk_key_scored_base)
next
  fix r tr
  assume mem: "r \<in> set rows"
    and h: "LMK_KEY r = k \<and> LODGEMENT_DATETIME r = Some tr
          \<and> (\<forall>q \<in> set rows. LMK_KEY q = k \<and> q \<noteq> r \<longrightarrow>
                (\<forall>tq. LODGEMENT_DATETIME q = Some tq \<longrightarrow> tq < tr))"
  have "\<forall>q \<in> set [] \<union> set rows. LMK_KEY q = LMK_KEY r \<and> q \<noteq> r \<longrightarrow>
          sorts_before (LODGEMENT_DATETIME r) (LODGEMENT_DATETIME q)"
    using h by (auto simp: sorts_before_iff)
  then have top: "(r, 1) \<in> set (deduped rows)"
    unfolding deduped_def using mem by (intro rank_one_of_latest) auto
  from h have "LMK_KEY r = k" by simp
  with top show "filter (\<lambda>c. epc_clean.lmk_key c = k) (silver_select cs rows)
                = (if CURRENT_ENERGY_EFFICIENCY r \<noteq> None
                      \<and> POTENTIAL_ENERGY_EFFICIENCY r \<noteq> None
                      \<and> PROPERTY_TYPE r \<noteq> None
                   then [scored (base cs r)] else [])"
    by (rule key_rows_of_rank_one)
next
  fix x assume x: "x \<in> set rows" "LMK_KEY x = k"
  from first_latest_exists [OF x] obtain pre r post
    where d: "rows = pre @ r # post" "LMK_KEY r = k"
      "\<forall>q \<in> set pre. LMK_KEY q = k \<longrightarrow>
          sorts_before (LODGEMENT_DATETIME r) (LODGEMENT_DATETIME q)"
      "\<forall>q \<in> set post. LMK_KEY q = k \<longrightarrow>
          \<not> sorts_before (LODGEMENT_DATETIME q) (LODGEMENT_DATETIME r)"
    by blast
  note f = first_latest_kept [OF d, of cs]
  from d f show "\<exists>pre r post. rows = pre @ r # post \<and> LMK_KEY r = k
             \<and> (\<forall>q \<in> set pre. LMK_KEY q = k \<longrightarrow>
                   sorts_before (LODGEMENT_DATETIME r) (LODGEMENT_DATETIME q))
             \<and> (\<forall>q \<in> set post. LMK_KEY q = k \<longrightarrow>
                   \<not> sorts_before (LODGEMENT_DATETIME q) (LODGEMENT_DATETIME r))
             \<and> filter (\<lambda>c. epc_clean.lmk_key c = k) (silver_select cs rows)
                 = (if CURRENT_ENERGY_EFFICIENCY r \<noteq> None
                       \<and> POTENTIAL_ENERGY_EFFICIENCY r \<noteq> None
                       \<and> PROPERTY_TYPE r \<noteq> None
                    then [scored (base cs r)] else [])"
    by blast
next
  assume a: "(\<exists>x \<in> set rows. LMK_KEY x = k)
        \<and> (\<forall>q \<in> set rows. LMK_KEY q = k \<longrightarrow>
              CURRENT_ENERGY_EFFICIENCY q \<noteq> None
              \<and> POTENTIAL_ENERGY_EFFICIENCY q \<noteq> None
              \<and> PROPERTY_TYPE q \<noteq> None)"
  then obtain x where x: "x \<in> set rows" "LMK_KEY x = k" by blast
  from first_latest_exists [OF x] obtain pre r post
    where d: "rows = pre @ r # post" "LMK_KEY r = k"
      "\<forall>q \<in> set pre. LMK_KEY q = k \<longrightarrow>
          sorts_before (LODGEMENT_DATETIME r) (LODGEMENT_DATETIME q)"
      "\<forall>q \<in> set post. LMK_KEY q = k \<longrightarrow>
          \<not> sorts_before (LODGEMENT_DATETIME q) (LODGEMENT_DATETIME r)"
    by blast
  have "r \<in> set rows" using d(1) by simp
  with a d(2) have "CURRENT_ENERGY_EFFICIENCY r \<noteq> None
              \<and> POTENTIAL_ENERGY_EFFICIENCY r \<noteq> None
              \<and> PROPERTY_TYPE r \<noteq> None" by blast
  with first_latest_kept [OF d, of cs]
  show "length (filter (\<lambda>c. epc_clean.lmk_key c = k) (silver_select cs rows)) = 1"
    by simp
qed

text \<open>
  Two certificates for one key, the later one complete: it alone is kept. Two complete
  certificates lodged at the same moment: one of them is kept.
\<close>

theorem dedup_keeps_latest_witness:
  "silver_epc_clean (fst (silver_run plain_casts (landing_store [older_row, newer_row])))
       = Some [scored (base plain_casts newer_row)]
   \<and> filter (\<lambda>c. epc_clean.lmk_key c = Some ''K1'') (silver_select plain_casts [older_row, newer_row])
       = [scored (base plain_casts newer_row)]
   \<and> length (filter (\<lambda>c. epc_clean.lmk_key c = Some ''K1'')
         (silver_select plain_casts [older_row, newer_row])) \<le> 1
   \<and> silver_epc_clean (fst (silver_run plain_casts (landing_store [tied_first_row, tied_second_row])))
       = Some [scored (base plain_casts tied_first_row)]
   \<and> length (filter (\<lambda>c. epc_clean.lmk_key c = Some ''K4'')
         (silver_select plain_casts [tied_first_row, tied_second_row])) = 1"
proof -
  have s: "bronze_epc_raw (landing_store [older_row, newer_row]) = Some [older_row, newer_row]"
    by (simp add: landing_store_def)
  have m: "newer_row \<in> set [older_row, newer_row]" by simp
  have k: "LMK_KEY newer_row = Some ''K1''"
    and t: "LODGEMENT_DATETIME newer_row = Some ''2021-03-15 12:30:00''"
    and p: "CURRENT_ENERGY_EFFICIENCY newer_row \<noteq> None \<and> POTENTIAL_ENERGY_EFFICIENCY newer_row \<noteq> None
            \<and> PROPERTY_TYPE newer_row \<noteq> None"
    by (simp_all add: newer_row_def survey_row_def)
  have o: "\<forall>q \<in> set [older_row, newer_row]. LMK_KEY q = Some ''K1'' \<and> q \<noteq> newer_row \<longrightarrow>
             (\<forall>tq. LODGEMENT_DATETIME q = Some tq \<longrightarrow> tq < ''2021-03-15 12:30:00'')"
    by (simp add: older_row_def survey_row_def)
  have c: "LMK_KEY newer_row = Some ''K1''
      \<and> LODGEMENT_DATETIME newer_row = Some ''2021-03-15 12:30:00''
      \<and> (\<forall>q \<in> set [older_row, newer_row]. LMK_KEY q = Some ''K1'' \<and> q \<noteq> newer_row \<longrightarrow>
             (\<forall>tq. LODGEMENT_DATETIME q = Some tq \<longrightarrow> tq < ''2021-03-15 12:30:00''))"
    by (intro conjI k t o)
  note d = dedup_keeps_latest [OF s, of plain_casts "Some ''K1''"]
  have e: "silver_epc_clean (fst (silver_run plain_casts (landing_store [older_row, newer_row])))
       = Some [scored (base plain_casts newer_row)]"
    using d [THEN conjunct1] unfolding latest_kept .
  have l: "length (filter (\<lambda>c. epc_clean.lmk_key c = Some ''K1'')
         (silver_select plain_casts [older_row, newer_row])) \<le> 1"
    by (rule d [THEN conjunct2, THEN conjunct1])
  have "filter (\<lambda>c. epc_clean.lmk_key c = Some ''K1'') (silver_select plain_casts [older_row, newer_row])
       = (if CURRENT_ENERGY_EFFICIENCY newer_row \<noteq> None
             \<and> POTENTIAL_ENERGY_EFFICIENCY newer_row \<noteq> None
             \<and> PROPERTY_TYPE newer_row \<noteq> None
          then [scored (base plain_casts newer_row)] else [])"
    by (rule d [THEN conjunct2, THEN conjunct2, THEN conjunct2, THEN conjunct1, rule_format, OF m c])
  then have f: "filter (\<lambda>c. epc_clean.lmk_key c = Some ''K1'')
         (silver_select plain_casts [older_row, newer_row]) = [scored (base plain_casts newer_row)]"
    using p by simp
  have s2: "bronze_epc_raw (landing_store [tied_first_row, tied_second_row])
      = Some [tied_first_row, tied_second_row]"
    by (simp add: landing_store_def)
  note d2 = dedup_keeps_latest [OF s2, of plain_casts "Some ''K4''"]
  have e2: "silver_epc_clean (fst (silver_run plain_casts (landing_store [tied_first_row, tied_second_row])))
       = Some [scored (base plain_casts tied_first_row)]"
    using d2 [THEN conjunct1] unfolding tied_kept .
  have a2: "(\<exists>x \<in> set [tied_first_row, tied_second_row]. LMK_KEY x = Some ''K4'')
        \<and> (\<forall>q \<in> set [tied_first_row, tied_second_row]. LMK_KEY q = Some ''K4'' \<longrightarrow>
              CURRENT_ENERGY_EFFICIENCY q \<noteq> None
              \<and> POTENTIAL_ENERGY_EFFICIENCY q \<noteq> None
              \<and> PROPERTY_TYPE q \<noteq> None)"
    by (simp add: tied_first_row_def tied_second_row_def survey_row_def)
  have l2: "length (filter (\<lambda>c. epc_clean.lmk_key c = Some ''K4'')
         (silver_select plain_casts [tied_first_row, tied_second_row])) = 1"
    by (rule d2 [THEN conjunct2, THEN conjunct2, THEN conjunct2, THEN conjunct2, THEN conjunct2,
          rule_format, OF a2])
  from e f l e2 l2 show ?thesis by simp
qed

text \<open>
  C2 as stated (a key on two or more landing rows has exactly one surviving row) fails:
  the later of two certificates has no property type, and the key has no clean row,
  although the earlier certificate is complete.
\<close>

theorem dedup_latest_row_dropped:
  "LMK_KEY older_row = Some ''K1'' \<and> LMK_KEY newer_untyped_row = Some ''K1''
   \<and> filter (\<lambda>c. epc_clean.lmk_key c = Some ''K1'')
        (silver_select plain_casts [older_row, newer_untyped_row]) = []"
proof -
  have "silver_select plain_casts [older_row, newer_untyped_row] = []"
    unfolding silver_select_def dedup_latest_untyped
    by (simp add: base_where_def is_not_null_def newer_untyped_row_def survey_row_def)
  then show ?thesis
    by (simp add: older_row_def newer_untyped_row_def survey_row_def)
qed

subsection \<open>Mandatory columns\<close>

text \<open>
  C1, as the code has it. The filter tests the three source columns, as text, for NULL.
  So on every row of \<open>silver.epc_clean\<close> the property type is present and both
  efficiency texts were present in the source; the efficiency itself is the cast of its
  text, NULL where the text does not parse. And every rank-1 landing row that the
  filter drops has one of the three source columns NULL.
\<close>

theorem mandatory_fields_present:
  "(\<forall>c \<in> set (silver_select cs rows).
      epc_clean.property_type c \<noteq> None
      \<and> (\<exists>r \<in> set rows. c = scored (base cs r)
            \<and> (\<exists>s. CURRENT_ENERGY_EFFICIENCY r = Some s
                  \<and> epc_clean.current_efficiency c = TRY_CAST_INTEGER cs s)
            \<and> (\<exists>s. POTENTIAL_ENERGY_EFFICIENCY r = Some s
                  \<and> epc_clean.potential_efficiency c = TRY_CAST_INTEGER cs s)))
   \<and> (\<forall>r. (r, 1) \<in> set (deduped rows) \<and> scored (base cs r) \<notin> set (silver_select cs rows)
          \<longrightarrow> CURRENT_ENERGY_EFFICIENCY r = None
              \<or> POTENTIAL_ENERGY_EFFICIENCY r = None
              \<or> PROPERTY_TYPE r = None)"
proof (intro conjI ballI allI impI)
  fix c assume "c \<in> set (silver_select cs rows)"
  then obtain r where r: "(r, 1) \<in> set (deduped rows)" "c = scored (base cs r)"
      "CURRENT_ENERGY_EFFICIENCY r \<noteq> None" "POTENTIAL_ENERGY_EFFICIENCY r \<noteq> None"
      "PROPERTY_TYPE r \<noteq> None"
    by (auto simp: silver_select_mem)
  show "epc_clean.property_type c \<noteq> None"
    using r by (simp add: scored_def base_def)
  have "r \<in> set rows" using r(1) by (rule deduped_mem)
  moreover have "\<exists>s. CURRENT_ENERGY_EFFICIENCY r = Some s
                  \<and> epc_clean.current_efficiency c = TRY_CAST_INTEGER cs s"
    using r by (auto simp: scored_def base_def try_cast_def)
  moreover have "\<exists>s. POTENTIAL_ENERGY_EFFICIENCY r = Some s
                  \<and> epc_clean.potential_efficiency c = TRY_CAST_INTEGER cs s"
    using r by (auto simp: scored_def base_def try_cast_def)
  ultimately show "\<exists>r \<in> set rows. c = scored (base cs r)
            \<and> (\<exists>s. CURRENT_ENERGY_EFFICIENCY r = Some s
                  \<and> epc_clean.current_efficiency c = TRY_CAST_INTEGER cs s)
            \<and> (\<exists>s. POTENTIAL_ENERGY_EFFICIENCY r = Some s
                  \<and> epc_clean.potential_efficiency c = TRY_CAST_INTEGER cs s)"
    using r(2) by blast
next
  fix r assume "(r, 1) \<in> set (deduped rows) \<and> scored (base cs r) \<notin> set (silver_select cs rows)"
  then show "CURRENT_ENERGY_EFFICIENCY r = None
              \<or> POTENTIAL_ENERGY_EFFICIENCY r = None
              \<or> PROPERTY_TYPE r = None"
    by (auto simp: silver_select_mem)
qed

theorem mandatory_fields_present_witness:
  "silver_select plain_casts [unparsed_row] = [scored (base plain_casts unparsed_row)]
   \<and> epc_clean.property_type (scored (base plain_casts unparsed_row)) = Some ''House''
   \<and> epc_clean.potential_efficiency (scored (base plain_casts unparsed_row)) = Some 82
   \<and> (\<exists>r \<in> set [unparsed_row]. \<exists>s. CURRENT_ENERGY_EFFICIENCY r = Some s
         \<and> epc_clean.current_efficiency (scored (base plain_casts unparsed_row)) = plain_integer s)"
proof -
  have m: "scored (base plain_casts unparsed_row) \<in> set (silver_select plain_casts [unparsed_row])"
    by (simp add: unparsed_kept)
  have v: "epc_clean.property_type (scored (base plain_casts unparsed_row)) = Some ''House''"
      "epc_clean.potential_efficiency (scored (base plain_casts unparsed_row)) = Some 82"
    by (simp_all add: scored_def base_def try_cast_def plain_casts_def plain_integer_def
        digit_value_def unparsed_row_def survey_row_def)
  have "\<exists>r \<in> set [unparsed_row]. scored (base plain_casts unparsed_row) = scored (base plain_casts r)
            \<and> (\<exists>s. CURRENT_ENERGY_EFFICIENCY r = Some s
                  \<and> epc_clean.current_efficiency (scored (base plain_casts unparsed_row))
                      = TRY_CAST_INTEGER plain_casts s)
            \<and> (\<exists>s. POTENTIAL_ENERGY_EFFICIENCY r = Some s
                  \<and> epc_clean.potential_efficiency (scored (base plain_casts unparsed_row))
                      = TRY_CAST_INTEGER plain_casts s)"
    by (rule mandatory_fields_present [of plain_casts "[unparsed_row]", THEN conjunct1,
          rule_format, OF m, THEN conjunct2])
  then have "\<exists>r \<in> set [unparsed_row]. \<exists>s. CURRENT_ENERGY_EFFICIENCY r = Some s
         \<and> epc_clean.current_efficiency (scored (base plain_casts unparsed_row)) = plain_integer s"
    by (auto simp: plain_casts_def)
  with unparsed_kept v show ?thesis by simp
qed

text \<open>
  C1 as stated (no clean row has a NULL current efficiency) fails: a certificate whose
  efficiency text is present but not a number is kept, with a NULL efficiency.
\<close>

theorem unparsed_efficiency_kept_null:
  "CURRENT_ENERGY_EFFICIENCY unparsed_row = Some ''N/A''
   \<and> map epc_clean.current_efficiency (silver_select plain_casts [unparsed_row]) = [None]"
  unfolding unparsed_kept
  by (simp add: scored_def base_def try_cast_def plain_casts_def plain_integer_def digit_value_def
      unparsed_row_def survey_row_def)

subsection \<open>Data quality score\<close>

lemma semi_detached_kept:
  "silver_select plain_casts [semi_detached_row] = [scored (base plain_casts semi_detached_row)]"
  by (simp add: silver_select_def deduped_def base_where_def is_not_null_def semi_detached_row_def)

text \<open>
  C9. On every row of the clean table that \<^verbatim>\<open>silver.run\<close> stores, the data quality
  score is the percentage of the eight designated columns (walls, roof, windows and
  heating description, total floor area, construction age band, tenure, main fuel) that
  are not NULL on that row, rounded to a whole number with a half going up:
  \<open>round (100 * n / 8)\<close> for \<open>n\<close> columns present. It lies between 0 and 100.
\<close>

theorem data_quality_percentage:
  assumes "bronze_epc_raw st = Some rows"
  shows "\<exists>t. silver_epc_clean (fst (silver_run cs st)) = Some t
     \<and> (\<forall>c \<in> set t.
          \<exists>n q. n = length (filter (\<lambda>present. present)
                     [epc_clean.walls_description c \<noteq> None,
                      epc_clean.roof_description c \<noteq> None,
                      epc_clean.windows_description c \<noteq> None,
                      epc_clean.heating_description c \<noteq> None,
                      epc_clean.total_floor_area c \<noteq> None,
                      epc_clean.construction_age_band c \<noteq> None,
                      epc_clean.tenure c \<noteq> None,
                      epc_clean.main_fuel c \<noteq> None])
           \<and> q = round (100 * rat_of_nat n / 8)
           \<and> epc_clean.data_quality_score c = Some (of_int q)
           \<and> 0 \<le> q \<and> q \<le> 100)"
proof -
  have "\<forall>c \<in> set (silver_select cs rows).
          \<exists>n q. n = length (filter (\<lambda>present. present)
                     [epc_clean.walls_description c \<noteq> None,
                      epc_clean.roof_description c \<noteq> None,
                      epc_clean.windows_description c \<noteq> None,
                      epc_clean.heating_description c \<noteq> None,
                      epc_clean.total_floor_area c \<noteq> None,
                      epc_clean.construction_age_band c \<noteq> None,
                      epc_clean.tenure c \<noteq> None,
                      epc_clean.main_fuel c \<noteq> None])
           \<and> q = round (100 * rat_of_nat n / 8)
           \<and> epc_clean.data_quality_score c = Some (of_int q)
           \<and> 0 \<le> q \<and> q \<le> 100"
  proof (rule ballI)
    fix c assume "c \<in> set (silver_select cs rows)"
    then obtain r where c: "c = scored (base cs r)"
      by (auto simp: silver_select_def)
    define b where "b = base cs r"
    define n where "n = length (filter (\<lambda>present. present)
                       [epc_clean.walls_description c \<noteq> None,
                        epc_clean.roof_description c \<noteq> None,
                        epc_clean.windows_description c \<noteq> None,
                        epc_clean.heating_description c \<noteq> None,
                        epc_clean.total_floor_area c \<noteq> None,
                        epc_clean.construction_age_band c \<noteq> None,
                        epc_clean.tenure c \<noteq> None,
                        epc_clean.main_fuel c \<noteq> None])"
    have n8: "n \<le> 8"
      unfolding n_def by (rule order_trans [OF length_filter_le]) simp
    have same: "epc_clean.walls_description c = epc_clean.walls_description b"
        "epc_clean.roof_description c = epc_clean.roof_description b"
        "epc_clean.windows_description c = epc_clean.windows_description b"
        "epc_clean.heating_description c = epc_clean.heating_description b"
        "epc_clean.total_floor_area c = epc_clean.total_floor_area b"
        "epc_clean.construction_age_band c = epc_clean.construction_age_band b"
        "epc_clean.tenure c = epc_clean.tenure b"
        "epc_clean.main_fuel c = epc_clean.main_fuel b"
      by (simp_all add: c b_def scored_def)
    have qc: "quality_count b = int n"
      unfolding n_def same quality_count_def is_not_null_def
      by (simp only: count_true_Cons) simp
    have dq: "epc_clean.data_quality_score c = Some (quality_score b)"
      by (simp add: c b_def scored_def)
    from quality_of_count [OF n8]
    show "\<exists>n q. n = length (filter (\<lambda>present. present)
                       [epc_clean.walls_description c \<noteq> None,
                        epc_clean.roof_description c \<noteq> None,
                        epc_clean.windows_description c \<noteq> None,
                        epc_clean.heating_description c \<noteq> None,
                        epc_clean.total_floor_area c \<noteq> None,
                        epc_clean.construction_age_band c \<noteq> None,
                        epc_clean.tenure c \<noteq> None,
                        epc_clean.main_fuel c \<noteq> None])
             \<and> q = round (100 * rat_of_nat n / 8)
             \<and> epc_clean.data_quality_score c = Some (of_int q)
             \<and> 0 \<le> q \<and> q \<le> 100"
      unfolding dq quality_score_def qc n_def [symmetric] by blast
  qed
  with silver_run_clean [OF assms, of cs] show ?thesis by blast
qed

text \<open>
  The certificate of the example has seven of the eight columns, the tenure is missing:
  87.5 per cent, stored as 88.
\<close>

theorem data_quality_percentage_witness:
  "silver_epc_clean (fst (silver_run plain_casts (landing_store [semi_detached_row])))
       = Some [scored (base plain_casts semi_detached_row)]
   \<and> epc_clean.tenure (scored (base plain_casts semi_detached_row)) = None
   \<and> epc_clean.total_floor_area (scored (base plain_casts semi_detached_row)) = Some 83
   \<and> epc_clean.data_quality_score (scored (base plain_casts semi_detached_row)) = Some 88"
proof -
  let ?c = "scored (base plain_casts semi_detached_row)"
  have s: "bronze_epc_raw (landing_store [semi_detached_row]) = Some [semi_detached_row]"
    by (simp add: landing_store_def)
  have st: "silver_epc_clean (fst (silver_run plain_casts (landing_store [semi_detached_row])))
       = Some [?c]"
    using silver_run_clean [OF s, of plain_casts] by (simp only: semi_detached_kept)
  have t: "epc_clean.tenure ?c = None"
    by (simp add: scored_def base_def semi_detached_row_def blank_row_def)
  have r83: "rnd 83 = 83" by (rule rnd_numeral) simp
  have a: "epc_clean.total_floor_area ?c = Some 83"
    by (simp add: scored_def base_def semi_detached_row_def blank_row_def try_cast_def
        plain_casts_def plain_integer_def digit_value_def r83)
  have n: "length (filter (\<lambda>present. present)
                     [epc_clean.walls_description ?c \<noteq> None,
                      epc_clean.roof_description ?c \<noteq> None,
                      epc_clean.windows_description ?c \<noteq> None,
                      epc_clean.heating_description ?c \<noteq> None,
                      epc_clean.total_floor_area ?c \<noteq> None,
                      epc_clean.construction_age_band ?c \<noteq> None,
                      epc_clean.tenure ?c \<noteq> None,
                      epc_clean.main_fuel ?c \<noteq> None]) = 7"
    unfolding a t
    by (simp add: scored_def base_def semi_detached_row_def blank_row_def)
  have q: "round (100 * rat_of_nat 7 / 8) = 88"
    by (simp add: round_def)
  from data_quality_percentage [OF s, of plain_casts] obtain tb
    where tb: "silver_epc_clean (fst (silver_run plain_casts (landing_store [semi_detached_row])))
                 = Some tb"
      and al: "\<forall>c \<in> set tb.
          \<exists>n q. n = length (filter (\<lambda>present. present)
                     [epc_clean.walls_description c \<noteq> None,
                      epc_clean.roof_description c \<noteq> None,
                      epc_clean.windows_description c \<noteq> None,
                      epc_clean.heating_description c \<noteq> None,
                      epc_clean.total_floor_area c \<noteq> None,
                      epc_clean.construction_age_band c \<noteq> None,
                      epc_clean.tenure c \<noteq> None,
                      epc_clean.main_fuel c \<noteq> None])
           \<and> q = round (100 * rat_of_nat n / 8)
           \<and> epc_clean.data_quality_score c = Some (of_int q)
           \<and> 0 \<le> q \<and> q \<le> 100"
    by blast
  have tbe: "tb = [?c]" using tb st by simp
  have "?c \<in> set tb" unfolding tbe by simp
  from al [rule_format, OF this]
  have "epc_clean.data_quality_score ?c = Some (of_int (round (100 * rat_of_nat 7 / 8)))"
    unfolding n by blast
  then have "epc_clean.data_quality_score ?c = Some 88"
    unfolding q by simp
  with st t a show ?thesis by simp
qed

section \<open>Properties of the feature table\<close>

lemma features_select_mem:
  "f \<in> set (features_select clean) \<longleftrightarrow> (\<exists>c \<in> set clean. features_where c \<and> f = features_row c)"
  by (auto simp: features_select_def)

lemma features_where_iff:
  "features_where c \<longleftrightarrow>
     (\<exists>a b. epc_clean.current_efficiency c = Some a \<and> epc_clean.potential_efficiency c = Some b
        \<and> 1 \<le> a \<and> a \<le> 100 \<and> 1 \<le> b \<and> b \<le> 100)"
  by (cases "epc_clean.current_efficiency c"; cases "epc_clean.potential_efficiency c")
     (auto simp: features_where_def is_true_def sql_and_def sql_between_def sql_ge_def sql_le_def)

lemma priority_of_score:
  assumes "epc_clean.current_efficiency c = Some a" "epc_clean.potential_efficiency c = Some b"
  shows "retrofit_score_of c = Some (b - a)"
    and "retrofit_priority_of c = (if 20 \<le> b - a then ''High'' else if 10 \<le> b - a then ''Medium'' else ''Low'')"
  using assms
  by (simp_all add: retrofit_score_of_def retrofit_priority_of_def int_minus_def sql_ge_def is_true_def)

lemma features_where_eff_row:
  "features_where (eff_row a b) \<longleftrightarrow> 1 \<le> a \<and> a \<le> 100 \<and> 1 \<le> b \<and> b \<le> 100"
  by (simp add: features_where_iff eff_row_def)

lemma features_where_blank: "\<not> features_where blank_clean"
  by (simp add: features_where_iff blank_clean_def)

lemma boundary_features:
  "features_select boundary_rows =
     map features_row [eff_row 60 80, eff_row 60 79, eff_row 60 70, eff_row 60 69, eff_row 60 55]"
  by (simp add: features_select_def boundary_rows_def features_where_eff_row features_where_blank)

text \<open>
  C3. On every row of \<open>gold.epc_features\<close> the retrofit score is not NULL, and the
  priority is \<open>High\<close> exactly for a score of 20 or more, \<open>Medium\<close> exactly for a score
  from 10 to 19, and \<open>Low\<close> exactly for a score of 9 or less, negative scores included.
\<close>

theorem retrofit_priority_buckets:
  assumes "f \<in> set (features_select clean)"
  shows "\<exists>s. retrofit_score f = Some s
           \<and> (epc_features.retrofit_priority f = Some ''High'' \<longleftrightarrow> 20 \<le> s)
           \<and> (epc_features.retrofit_priority f = Some ''Medium'' \<longleftrightarrow> 10 \<le> s \<and> s \<le> 19)
           \<and> (epc_features.retrofit_priority f = Some ''Low'' \<longleftrightarrow> s \<le> 9)"
proof -
  from assms obtain c where c: "features_where c" "f = features_row c"
    by (auto simp: features_select_mem)
  from c(1) obtain a b where ab: "epc_clean.current_efficiency c = Some a"
      "epc_clean.potential_efficiency c = Some b"
    by (auto simp: features_where_iff)
  show ?thesis
    using priority_of_score [OF ab] by (simp add: c(2) features_row_def)
qed

text \<open>
  The boundary scores 20, 19, 10, 9 and a negative one, on rows that pass the range
  filter; the rows with an efficiency of 0, of 101 or NULL do not reach the table.
\<close>

theorem retrofit_priority_buckets_witness:
  "features_row (eff_row 60 79) \<in> set (features_select boundary_rows)
   \<and> map (\<lambda>f. (retrofit_score f, epc_features.retrofit_priority f)) (features_select boundary_rows)
       = [(Some 20, Some ''High''), (Some 19, Some ''Medium''), (Some 10, Some ''Medium''),
          (Some 9, Some ''Low''), (Some (- 5), Some ''Low'')]
   \<and> (\<exists>s. retrofit_score (features_row (eff_row 60 79)) = Some s
          \<and> (epc_features.retrofit_priority (features_row (eff_row 60 79)) = Some ''Medium''
               \<longleftrightarrow> 10 \<le> s \<and> s \<le> 19))"
proof -
  have h: "features_row (eff_row 60 79) \<in> set (features_select boundary_rows)"
    by (simp add: boundary_features)
  have e: "map (\<lambda>f. (retrofit_score f, epc_features.retrofit_priority f)) (features_select boundary_rows)
       = [(Some 20, Some ''High''), (Some 19, Some ''Medium''), (Some 10, Some ''Medium''),
          (Some 9, Some ''Low''), (Some (- 5), Some ''Low'')]"
    by (simp add: boundary_features features_row_def retrofit_score_of_def retrofit_priority_of_def
        int_minus_def sql_ge_def is_true_def eff_row_def)
  from retrofit_priority_buckets [OF h] h e show ?thesis by blast
qed

text \<open>
  C6. From a clean table, \<^verbatim>\<open>gold.run\<close> writes \<open>gold.epc_features\<close> with one row, in
  order, for each row of \<open>silver.epc_clean\<close> whose current and potential efficiency are
  both present and both between 1 and 100, and no other row; each carries the key and
  the two efficiencies of its clean row, and its retrofit score is the potential minus
  the current efficiency.
\<close>

theorem features_one_per_clean_row:
  assumes "silver_epc_clean st = Some clean"
  shows "gold_epc_features (fst (gold_run st)) = Some (features_select clean)
   \<and> list_all2
     (\<lambda>f c. epc_features.lmk_key f = epc_clean.lmk_key c
        \<and> (\<exists>a b. epc_clean.current_efficiency c = Some a
              \<and> epc_clean.potential_efficiency c = Some b
              \<and> epc_features.current_efficiency f = Some a
              \<and> epc_features.potential_efficiency f = Some b
              \<and> retrofit_score f = Some (b - a)))
     (features_select clean)
     (filter (\<lambda>c. case epc_clean.current_efficiency c of None \<Rightarrow> False
                 | Some a \<Rightarrow> (case epc_clean.potential_efficiency c of None \<Rightarrow> False
                     | Some b \<Rightarrow> 1 \<le> a \<and> a \<le> 100 \<and> 1 \<le> b \<and> b \<le> 100)) clean)"
proof (rule conjI)
  show "gold_epc_features (fst (gold_run st)) = Some (features_select clean)"
    using assms by (rule gold_run_features)
next
  have w: "features_where = (\<lambda>c. case epc_clean.current_efficiency c of None \<Rightarrow> False
                 | Some a \<Rightarrow> (case epc_clean.potential_efficiency c of None \<Rightarrow> False
                     | Some b \<Rightarrow> 1 \<le> a \<and> a \<le> 100 \<and> 1 \<le> b \<and> b \<le> 100))"
    by (rule ext) (auto simp: features_where_iff split: option.splits)
  have "list_all2
     (\<lambda>f c. epc_features.lmk_key f = epc_clean.lmk_key c
        \<and> (\<exists>a b. epc_clean.current_efficiency c = Some a
              \<and> epc_clean.potential_efficiency c = Some b
              \<and> epc_features.current_efficiency f = Some a
              \<and> epc_features.potential_efficiency f = Some b
              \<and> retrofit_score f = Some (b - a)))
     (map features_row (filter features_where clean)) (filter features_where clean)"
    unfolding list_all2_map1
  proof (rule list_all2_same [THEN iffD2], intro ballI)
    fix c assume "c \<in> set (filter features_where clean)"
    then have "features_where c" by simp
    then obtain a b where ab: "epc_clean.current_efficiency c = Some a"
      "epc_clean.potential_efficiency c = Some b"
      by (auto simp: features_where_iff)
    show "epc_features.lmk_key (features_row c) = epc_clean.lmk_key c
        \<and> (\<exists>a b. epc_clean.current_efficiency c = Some a
              \<and> epc_clean.potential_efficiency c = Some b
              \<and> epc_features.current_efficiency (features_row c) = Some a
              \<and> epc_features.potential_efficiency (features_row c) = Some b
              \<and> retrofit_score (features_row c) = Some (b - a))"
      using priority_of_score(1) [OF ab] ab by (simp add: features_row_def)
  qed
  then show "list_all2
     (\<lambda>f c. epc_features.lmk_key f = epc_clean.lmk_key c
        \<and> (\<exists>a b. epc_clean.current_efficiency c = Some a
              \<and> epc_clean.potential_efficiency c = Some b
              \<and> epc_features.current_efficiency f = Some a
              \<and> epc_features.potential_efficiency f = Some b
              \<and> retrofit_score f = Some (b - a)))
     (features_select clean)
     (filter (\<lambda>c. case epc_clean.current_efficiency c of None \<Rightarrow> False
                 | Some a \<Rightarrow> (case epc_clean.potential_efficiency c of None \<Rightarrow> False
                     | Some b \<Rightarrow> 1 \<le> a \<and> a \<le> 100 \<and> 1 \<le> b \<and> b \<le> 100)) clean)"
    unfolding features_select_def w .
qed

text \<open>
  A run on the eight example rows writes five feature rows, one of them with a negative
  score.
\<close>

theorem features_one_per_clean_row_witness:
  "(\<exists>fs. gold_epc_features (fst (gold_run (clean_store boundary_rows))) = Some fs
      \<and> map epc_features.retrofit_score fs = [Some 20, Some 19, Some 10, Some 9, Some (- 5)]
      \<and> length fs = 5)
   \<and> length boundary_rows = 8"
proof -
  have s: "silver_epc_clean (clean_store boundary_rows) = Some boundary_rows"
    by (simp add: clean_store_def)
  have f: "filter (\<lambda>c. case epc_clean.current_efficiency c of None \<Rightarrow> False
                 | Some a \<Rightarrow> (case epc_clean.potential_efficiency c of None \<Rightarrow> False
                     | Some b \<Rightarrow> 1 \<le> a \<and> a \<le> 100 \<and> 1 \<le> b \<and> b \<le> 100)) boundary_rows
        = [eff_row 60 80, eff_row 60 79, eff_row 60 70, eff_row 60 69, eff_row 60 55]"
    by (simp add: boundary_rows_def eff_row_def blank_clean_def)
  note g = features_one_per_clean_row [OF s, THEN conjunct1]
  note t = features_one_per_clean_row [OF s, THEN conjunct2, unfolded f]
  from t have l: "length (features_select boundary_rows) = 5"
    by (auto dest: list_all2_lengthD)
  obtain f1 f2 f3 f4 f5 where fs: "features_select boundary_rows = [f1, f2, f3, f4, f5]"
    using l by (auto simp: length_Suc_conv numeral_eq_Suc)
  from t have "map epc_features.retrofit_score (features_select boundary_rows)
     = [Some 20, Some 19, Some 10, Some 9, Some (- 5)]"
    unfolding fs by (auto simp: eff_row_def)
  with g l show ?thesis by (simp add: boundary_rows_def)
qed

text \<open>
  C10. On every row of \<open>gold.epc_features\<close> the CO2 saving is NULL exactly when the
  current or the potential CO2 emission of its clean row is NULL; the three cost
  columns, which default a missing cost to 0, are never NULL.
\<close>

theorem co2_saving_null_propagates:
  assumes "f \<in> set (features_select clean)"
  shows "\<exists>c \<in> set clean. f = features_row c
           \<and> (co2_saving_tonnes f = None \<longleftrightarrow> co2_current c = None \<or> co2_potential c = None)
           \<and> total_cost_current f \<noteq> None
           \<and> total_cost_potential f \<noteq> None
           \<and> annual_savings_potential f \<noteq> None"
proof -
  from assms obtain c where c: "c \<in> set clean" "f = features_row c"
    by (auto simp: features_select_mem)
  have "co2_saving_tonnes (features_row c) = None \<longleftrightarrow> co2_current c = None \<or> co2_potential c = None"
    by (simp add: features_row_def co2_saving_tonnes_of_def double_minus_def split: option.splits)
  then show ?thesis using c by (auto simp: features_row_def)
qed

theorem co2_saving_null_propagates_witness:
  "features_row (eff_row 60 80 \<lparr> co2_current := Some 4 \<rparr>) \<in> set (features_select co2_rows)
   \<and> co2_saving_tonnes (features_row (eff_row 60 80 \<lparr> co2_current := Some 4 \<rparr>)) = None
   \<and> (\<exists>c \<in> set co2_rows. features_row (eff_row 60 80 \<lparr> co2_current := Some 4 \<rparr>) = features_row c
         \<and> (co2_current c = None \<or> co2_potential c = None))"
proof -
  have w: "features_where (eff_row 60 80 \<lparr> co2_current := Some 4 \<rparr>)"
    by (simp add: features_where_iff eff_row_def)
  have h: "features_row (eff_row 60 80 \<lparr> co2_current := Some 4 \<rparr>) \<in> set (features_select co2_rows)"
    using w by (simp add: features_select_def co2_rows_def)
  have n: "co2_saving_tonnes (features_row (eff_row 60 80 \<lparr> co2_current := Some 4 \<rparr>)) = None"
    by (simp add: features_row_def co2_saving_tonnes_of_def double_minus_def eff_row_def blank_clean_def)
  from co2_saving_null_propagates [OF h] n h show ?thesis by auto
qed

subsection \<open>Costs and savings\<close>

text \<open>The doubles nearest 500.2 and 600.2, and their difference.\<close>

lemma double_500_2: "rnd (5002 / 10) = 8799611459416883 / 2 ^ 44"
proof -
  have r: "round_even (\<bar>5002 / 10\<bar> * 2 ^ 44 / 2 ^ 0) = 8799611459416883"
    by (rule round_even_near) simp
  have "rnd (5002 / 10)
      = sgn (5002 / 10) * of_int (round_even (\<bar>5002 / 10\<bar> * 2 ^ 44 / 2 ^ 0)) * 2 ^ 0 / 2 ^ 44"
    by (rule rnd_scaled) simp_all
  then show ?thesis unfolding r by simp
qed

lemma double_600_2: "rnd (8799611459416883 / 2 ^ 44 + 100) = 2639707515964621 / 2 ^ 42"
proof -
  have "round_even (\<bar>8799611459416883 / 2 ^ 44 + 100\<bar> * 2 ^ 43 / 2 ^ 0)
      = (if even (5279415031929241::int) then 5279415031929241 else 5279415031929241 + 1)"
    by (rule round_even_tie) simp
  then have r: "round_even (\<bar>8799611459416883 / 2 ^ 44 + 100\<bar> * 2 ^ 43 / 2 ^ 0)
      = 5279415031929242"
    by simp
  have "rnd (8799611459416883 / 2 ^ 44 + 100)
      = sgn (8799611459416883 / 2 ^ 44 + 100)
          * of_int (round_even (\<bar>8799611459416883 / 2 ^ 44 + 100\<bar> * 2 ^ 43 / 2 ^ 0))
          * 2 ^ 0 / 2 ^ 43"
    by (rule rnd_scaled) simp_all
  then show ?thesis unfolding r by simp
qed

lemma double_600_2_fix: "rnd (2639707515964621 / 2 ^ 42) = 2639707515964621 / 2 ^ 42"
  using rnd_exact [of 42 2639707515964621] by simp

lemma double_500_2_fix: "rnd (8799611459416883 / 2 ^ 44) = 8799611459416883 / 2 ^ 44"
  using rnd_exact [of 44 8799611459416883] by simp

lemma double_difference:
  "rnd (2639707515964621 / 2 ^ 42 - 8799611459416883 / 2 ^ 44) = 100 + 1 / 2 ^ 44"
proof -
  have "(2639707515964621 / 2 ^ 42 - 8799611459416883 / 2 ^ 44 :: rat)
      = of_int 1759218604441601 / 2 ^ 44" by simp
  moreover have "rnd (of_int 1759218604441601 / 2 ^ 44) = of_int 1759218604441601 / 2 ^ 44"
    by (rule rnd_exact) simp_all
  moreover have "(of_int 1759218604441601 / 2 ^ 44 :: rat) = 100 + 1 / 2 ^ 44" by simp
  ultimately show ?thesis by simp
qed

lemma features_of_cost_row:
  "features_select [cost_row hc hp wc wp lc lp] = [features_row (cost_row hc hp wc wp lc lp)]"
  by (simp add: features_select_def features_where_iff cost_row_def eff_row_def)

lemma cost_row_costs:
  "heating_cost_current (cost_row hc hp wc wp lc lp) = hc"
  "heating_cost_potential (cost_row hc hp wc wp lc lp) = hp"
  "hot_water_cost_current (cost_row hc hp wc wp lc lp) = wc"
  "hot_water_cost_potential (cost_row hc hp wc wp lc lp) = wp"
  "lighting_cost_current (cost_row hc hp wc wp lc lp) = lc"
  "lighting_cost_potential (cost_row hc hp wc wp lc lp) = lp"
  by (simp_all add: cost_row_def)

lemma features_row_costs:
  "annual_savings_potential (features_row c) = Some (annual_savings_potential_of c)"
  "total_cost_current (features_row c) = Some (total_cost_current_of c)"
  "total_cost_potential (features_row c) = Some (total_cost_potential_of c)"
  by (simp_all add: features_row_def)

text \<open>
  C4, as the code has it. The three cost columns are sums and differences of doubles,
  each operation rounded. On every row of the feature table that \<^verbatim>\<open>gold.run\<close> writes:
  if the six costs, a missing one taken as 0, are whole numbers of magnitude at most
  \<open>2 ^ 50\<close>, nothing is rounded, and the annual saving is the sum of the three
  differences, current minus potential, and equals the total current cost minus the
  total potential cost, both as a number and as the engine subtracts them. If the three
  current costs are present and the three potential costs are NULL, the annual saving
  is the sum of the three current costs as the engine adds them, the same double as the
  total current cost, and the total potential cost is 0.
\<close>

theorem savings_and_totals:
  assumes "silver_epc_clean st = Some clean"
  shows "\<exists>fs. gold_epc_features (fst (gold_run st)) = Some fs
     \<and> (\<forall>f \<in> set fs. \<exists>c \<in> set clean. f = features_row c
          \<and> annual_savings_potential f
               = Some (dadd (dadd (dsub (coalesce (heating_cost_current c) 0)
                                        (coalesce (heating_cost_potential c) 0))
                                  (dsub (coalesce (hot_water_cost_current c) 0)
                                        (coalesce (hot_water_cost_potential c) 0)))
                            (dsub (coalesce (lighting_cost_current c) 0)
                                  (coalesce (lighting_cost_potential c) 0)))
          \<and> total_cost_current f
               = Some (dadd (dadd (coalesce (heating_cost_current c) 0)
                                  (coalesce (hot_water_cost_current c) 0))
                            (coalesce (lighting_cost_current c) 0))
          \<and> total_cost_potential f
               = Some (dadd (dadd (coalesce (heating_cost_potential c) 0)
                                  (coalesce (hot_water_cost_potential c) 0))
                            (coalesce (lighting_cost_potential c) 0))
          \<and> ((\<forall>v \<in> set [heating_cost_current c, heating_cost_potential c,
                          hot_water_cost_current c, hot_water_cost_potential c,
                          lighting_cost_current c, lighting_cost_potential c].
                 \<exists>m. coalesce v 0 = rat_of_int m \<and> \<bar>m\<bar> \<le> 2 ^ 50)
               \<longrightarrow> (\<exists>s tc tp. annual_savings_potential f = Some s
                      \<and> total_cost_current f = Some tc \<and> total_cost_potential f = Some tp
                      \<and> s = (coalesce (heating_cost_current c) 0
                               - coalesce (heating_cost_potential c) 0)
                            + (coalesce (hot_water_cost_current c) 0
                               - coalesce (hot_water_cost_potential c) 0)
                            + (coalesce (lighting_cost_current c) 0
                               - coalesce (lighting_cost_potential c) 0)
                      \<and> s = tc - tp \<and> s = dsub tc tp))
          \<and> (\<forall>a b d. heating_cost_current c = Some a \<and> hot_water_cost_current c = Some b
                  \<and> lighting_cost_current c = Some d
                  \<and> is_double a \<and> is_double b \<and> is_double d
                  \<and> heating_cost_potential c = None \<and> hot_water_cost_potential c = None
                  \<and> lighting_cost_potential c = None
               \<longrightarrow> annual_savings_potential f = Some (dadd (dadd a b) d)
                   \<and> total_cost_current f = Some (dadd (dadd a b) d)
                   \<and> total_cost_potential f = Some 0))"
proof -
  have "\<exists>c \<in> set clean. f = features_row c
          \<and> annual_savings_potential f
               = Some (dadd (dadd (dsub (coalesce (heating_cost_current c) 0)
                                        (coalesce (heating_cost_potential c) 0))
                                  (dsub (coalesce (hot_water_cost_current c) 0)
                                        (coalesce (hot_water_cost_potential c) 0)))
                            (dsub (coalesce (lighting_cost_current c) 0)
                                  (coalesce (lighting_cost_potential c) 0)))
          \<and> total_cost_current f
               = Some (dadd (dadd (coalesce (heating_cost_current c) 0)
                                  (coalesce (hot_water_cost_current c) 0))
                            (coalesce (lighting_cost_current c) 0))
          \<and> total_cost_potential f
               = Some (dadd (dadd (coalesce (heating_cost_potential c) 0)
                                  (coalesce (hot_water_cost_potential c) 0))
                            (coalesce (lighting_cost_potential c) 0))
          \<and> ((\<forall>v \<in> set [heating_cost_current c, heating_cost_potential c,
                          hot_water_cost_current c, hot_water_cost_potential c,
                          lighting_cost_current c, lighting_cost_potential c].
                 \<exists>m. coalesce v 0 = rat_of_int m \<and> \<bar>m\<bar> \<le> 2 ^ 50)
               \<longrightarrow> (\<exists>s tc tp. annual_savings_potential f = Some s
                      \<and> total_cost_current f = Some tc \<and> total_cost_potential f = Some tp
                      \<and> s = (coalesce (heating_cost_current c) 0
                               - coalesce (heating_cost_potential c) 0)
                            + (coalesce (hot_water_cost_current c) 0
                               - coalesce (hot_water_cost_potential c) 0)
                            + (coalesce (lighting_cost_current c) 0
                               - coalesce (lighting_cost_potential c) 0)
                      \<and> s = tc - tp \<and> s = dsub tc tp))
          \<and> (\<forall>a b d. heating_cost_current c = Some a \<and> hot_water_cost_current c = Some b
                  \<and> lighting_cost_current c = Some d
                  \<and> is_double a \<and> is_double b \<and> is_double d
                  \<and> heating_cost_potential c = None \<and> hot_water_cost_potential c = None
                  \<and> lighting_cost_potential c = None
               \<longrightarrow> annual_savings_potential f = Some (dadd (dadd a b) d)
                   \<and> total_cost_current f = Some (dadd (dadd a b) d)
                   \<and> total_cost_potential f = Some 0)"
    if "f \<in> set (features_select clean)" for f
  proof -
    from that obtain c where c: "c \<in> set clean" "f = features_row c"
      by (auto simp: features_select_mem)
    have fs: "annual_savings_potential f = Some (annual_savings_potential_of c)"
        "total_cost_current f = Some (total_cost_current_of c)"
        "total_cost_potential f = Some (total_cost_potential_of c)"
      by (simp_all add: c(2) features_row_costs)
    have whole: "\<exists>s tc tp. annual_savings_potential f = Some s
                   \<and> total_cost_current f = Some tc \<and> total_cost_potential f = Some tp
                   \<and> s = (coalesce (heating_cost_current c) 0
                            - coalesce (heating_cost_potential c) 0)
                         + (coalesce (hot_water_cost_current c) 0
                            - coalesce (hot_water_cost_potential c) 0)
                         + (coalesce (lighting_cost_current c) 0
                            - coalesce (lighting_cost_potential c) 0)
                   \<and> s = tc - tp \<and> s = dsub tc tp"
      if w: "\<forall>v \<in> set [heating_cost_current c, heating_cost_potential c,
                       hot_water_cost_current c, hot_water_cost_potential c,
                       lighting_cost_current c, lighting_cost_potential c].
              \<exists>m. coalesce v 0 = rat_of_int m \<and> \<bar>m\<bar> \<le> 2 ^ 50"
    proof -
      from w obtain m1 m2 m3 m4 m5 m6 where
        m: "coalesce (heating_cost_current c) 0 = rat_of_int m1" "\<bar>m1\<bar> \<le> 2 ^ 50"
           "coalesce (heating_cost_potential c) 0 = rat_of_int m2" "\<bar>m2\<bar> \<le> 2 ^ 50"
           "coalesce (hot_water_cost_current c) 0 = rat_of_int m3" "\<bar>m3\<bar> \<le> 2 ^ 50"
           "coalesce (hot_water_cost_potential c) 0 = rat_of_int m4" "\<bar>m4\<bar> \<le> 2 ^ 50"
           "coalesce (lighting_cost_current c) 0 = rat_of_int m5" "\<bar>m5\<bar> \<le> 2 ^ 50"
           "coalesce (lighting_cost_potential c) 0 = rat_of_int m6" "\<bar>m6\<bar> \<le> 2 ^ 50"
        by auto
      note e = whole_costs_exact [OF m(2) m(4) m(6) m(8) m(10) m(12)]
      have s: "annual_savings_potential_of c = of_int (m1 - m2 + (m3 - m4) + (m5 - m6))"
        unfolding annual_savings_potential_of_def m(1,3,5,7,9,11) by (rule e(1))
      have tc: "total_cost_current_of c = of_int (m1 + m3 + m5)"
        unfolding total_cost_current_of_def m(1,5,9) by (rule e(2))
      have tp: "total_cost_potential_of c = of_int (m2 + m4 + m6)"
        unfolding total_cost_potential_of_def m(3,7,11) by (rule e(3))
      have "annual_savings_potential_of c = total_cost_current_of c - total_cost_potential_of c"
        unfolding s tc tp by simp
      moreover have "annual_savings_potential_of c
          = dsub (total_cost_current_of c) (total_cost_potential_of c)"
        unfolding s tc tp by (rule e(4) [symmetric])
      moreover have "annual_savings_potential_of c
          = (coalesce (heating_cost_current c) 0 - coalesce (heating_cost_potential c) 0)
            + (coalesce (hot_water_cost_current c) 0 - coalesce (hot_water_cost_potential c) 0)
            + (coalesce (lighting_cost_current c) 0 - coalesce (lighting_cost_potential c) 0)"
        unfolding s m(1,3,5,7,9,11) by simp
      ultimately show ?thesis unfolding fs by blast
    qed
    have nopot: "annual_savings_potential f = Some (dadd (dadd a b) d)
                \<and> total_cost_current f = Some (dadd (dadd a b) d)
                \<and> total_cost_potential f = Some 0"
      if h: "heating_cost_current c = Some a \<and> hot_water_cost_current c = Some b
               \<and> lighting_cost_current c = Some d
               \<and> is_double a \<and> is_double b \<and> is_double d
               \<and> heating_cost_potential c = None \<and> hot_water_cost_potential c = None
               \<and> lighting_cost_potential c = None" for a b d
      unfolding fs annual_savings_potential_of_def total_cost_current_of_def
        total_cost_potential_of_def
      using h no_potential_costs [of a b d] by (simp add: coalesce_def)
    have eqs: "annual_savings_potential f
               = Some (dadd (dadd (dsub (coalesce (heating_cost_current c) 0)
                                        (coalesce (heating_cost_potential c) 0))
                                  (dsub (coalesce (hot_water_cost_current c) 0)
                                        (coalesce (hot_water_cost_potential c) 0)))
                            (dsub (coalesce (lighting_cost_current c) 0)
                                  (coalesce (lighting_cost_potential c) 0)))"
        "total_cost_current f
               = Some (dadd (dadd (coalesce (heating_cost_current c) 0)
                                  (coalesce (hot_water_cost_current c) 0))
                            (coalesce (lighting_cost_current c) 0))"
        "total_cost_potential f
               = Some (dadd (dadd (coalesce (heating_cost_potential c) 0)
                                  (coalesce (hot_water_cost_potential c) 0))
                            (coalesce (lighting_cost_potential c) 0))"
      unfolding fs annual_savings_potential_of_def total_cost_current_of_def
        total_cost_potential_of_def by (rule refl)+
    from c eqs whole nopot show ?thesis by blast
  qed
  with gold_run_features [OF assms] show ?thesis by blast
qed

text \<open>
  Costs in whole pounds: a saving of 370 on totals of 1100 and 730. No potential costs:
  a saving of 1100, the total current cost, and a total potential cost of 0.
\<close>

theorem savings_and_totals_witness:
  "(gold_epc_features (fst (gold_run (clean_store [whole_pounds_row])))
       = Some [features_row whole_pounds_row]
    \<and> annual_savings_potential (features_row whole_pounds_row) = Some 370
    \<and> total_cost_current (features_row whole_pounds_row) = Some 1100
    \<and> total_cost_potential (features_row whole_pounds_row) = Some 730)
   \<and> (gold_epc_features (fst (gold_run (clean_store [no_potential_row])))
       = Some [features_row no_potential_row]
    \<and> annual_savings_potential (features_row no_potential_row) = Some 1100
    \<and> total_cost_current (features_row no_potential_row) = Some 1100
    \<and> total_cost_potential (features_row no_potential_row) = Some 0)"
proof -
  let ?whole = "\<lambda>c f. (\<forall>v \<in> set [heating_cost_current c, heating_cost_potential c,
                          hot_water_cost_current c, hot_water_cost_potential c,
                          lighting_cost_current c, lighting_cost_potential c].
                 \<exists>m. coalesce v 0 = rat_of_int m \<and> \<bar>m\<bar> \<le> 2 ^ 50)
               \<longrightarrow> (\<exists>s tc tp. annual_savings_potential f = Some s
                      \<and> total_cost_current f = Some tc \<and> total_cost_potential f = Some tp
                      \<and> s = (coalesce (heating_cost_current c) 0
                               - coalesce (heating_cost_potential c) 0)
                            + (coalesce (hot_water_cost_current c) 0
                               - coalesce (hot_water_cost_potential c) 0)
                            + (coalesce (lighting_cost_current c) 0
                               - coalesce (lighting_cost_potential c) 0)
                      \<and> s = tc - tp \<and> s = dsub tc tp)"
  let ?nopot = "\<lambda>c f. \<forall>a b d. heating_cost_current c = Some a \<and> hot_water_cost_current c = Some b
                  \<and> lighting_cost_current c = Some d
                  \<and> is_double a \<and> is_double b \<and> is_double d
                  \<and> heating_cost_potential c = None \<and> hot_water_cost_potential c = None
                  \<and> lighting_cost_potential c = None
               \<longrightarrow> annual_savings_potential f = Some (dadd (dadd a b) d)
                   \<and> total_cost_current f = Some (dadd (dadd a b) d)
                   \<and> total_cost_potential f = Some 0"
  let ?row = "\<lambda>c f. annual_savings_potential f
               = Some (dadd (dadd (dsub (coalesce (heating_cost_current c) 0)
                                        (coalesce (heating_cost_potential c) 0))
                                  (dsub (coalesce (hot_water_cost_current c) 0)
                                        (coalesce (hot_water_cost_potential c) 0)))
                            (dsub (coalesce (lighting_cost_current c) 0)
                                  (coalesce (lighting_cost_potential c) 0)))
          \<and> total_cost_current f
               = Some (dadd (dadd (coalesce (heating_cost_current c) 0)
                                  (coalesce (hot_water_cost_current c) 0))
                            (coalesce (lighting_cost_current c) 0))
          \<and> total_cost_potential f
               = Some (dadd (dadd (coalesce (heating_cost_potential c) 0)
                                  (coalesce (hot_water_cost_potential c) 0))
                            (coalesce (lighting_cost_potential c) 0))
          \<and> ?whole c f \<and> ?nopot c f"
  have row: "gold_epc_features (fst (gold_run (clean_store [x]))) = Some [features_row x]
             \<and> ?whole x (features_row x) \<and> ?nopot x (features_row x)"
    if x: "features_select [x] = [features_row x]" for x
  proof -
    have s: "silver_epc_clean (clean_store [x]) = Some [x]"
      by (simp add: clean_store_def)
    from savings_and_totals [OF s] obtain fs
      where fs: "gold_epc_features (fst (gold_run (clean_store [x]))) = Some fs"
        and al: "\<forall>f \<in> set fs. \<exists>c \<in> set [x]. f = features_row c \<and> ?row c f"
      by blast
    have e: "fs = [features_row x]"
      using fs gold_run_features [OF s] x by simp
    have "features_row x \<in> set fs" unfolding e by simp
    from al [rule_format, OF this] obtain c
      where c: "c \<in> set [x]" "?whole c (features_row x)" "?nopot c (features_row x)"
      by blast
    have cx: "c = x" using c(1) by simp
    show ?thesis
      by (intro conjI fs [unfolded e] c(2) [unfolded cx] c(3) [unfolded cx])
  qed
  note w = row [of whole_pounds_row, OF features_of_cost_row [of "Some 800" "Some 500" "Some 200"
        "Some 150" "Some 100" "Some 80", folded whole_pounds_row_def]]
  note n = row [of no_potential_row, OF features_of_cost_row [of "Some 800" None "Some 200"
        None "Some 100" None, folded no_potential_row_def]]
  have wc: "\<forall>v \<in> set [heating_cost_current whole_pounds_row, heating_cost_potential whole_pounds_row,
                hot_water_cost_current whole_pounds_row, hot_water_cost_potential whole_pounds_row,
                lighting_cost_current whole_pounds_row, lighting_cost_potential whole_pounds_row].
            \<exists>m. coalesce v 0 = rat_of_int m \<and> \<bar>m\<bar> \<le> 2 ^ 50"
  proof -
    have "\<exists>m. (800::rat) = rat_of_int m \<and> \<bar>m\<bar> \<le> 2 ^ 50" by (rule exI [of _ 800]) simp
    moreover have "\<exists>m. (500::rat) = rat_of_int m \<and> \<bar>m\<bar> \<le> 2 ^ 50" by (rule exI [of _ 500]) simp
    moreover have "\<exists>m. (200::rat) = rat_of_int m \<and> \<bar>m\<bar> \<le> 2 ^ 50" by (rule exI [of _ 200]) simp
    moreover have "\<exists>m. (150::rat) = rat_of_int m \<and> \<bar>m\<bar> \<le> 2 ^ 50" by (rule exI [of _ 150]) simp
    moreover have "\<exists>m. (100::rat) = rat_of_int m \<and> \<bar>m\<bar> \<le> 2 ^ 50" by (rule exI [of _ 100]) simp
    moreover have "\<exists>m. (80::rat) = rat_of_int m \<and> \<bar>m\<bar> \<le> 2 ^ 50" by (rule exI [of _ 80]) simp
    ultimately show ?thesis
      by (simp add: whole_pounds_row_def cost_row_costs coalesce_def)
  qed
  from w [THEN conjunct2, THEN conjunct1, THEN mp, OF wc]
  obtain s tc tp where v: "annual_savings_potential (features_row whole_pounds_row) = Some s"
      "total_cost_current (features_row whole_pounds_row) = Some tc"
      "total_cost_potential (features_row whole_pounds_row) = Some tp"
      "s = (coalesce (heating_cost_current whole_pounds_row) 0
              - coalesce (heating_cost_potential whole_pounds_row) 0)
           + (coalesce (hot_water_cost_current whole_pounds_row) 0
              - coalesce (hot_water_cost_potential whole_pounds_row) 0)
           + (coalesce (lighting_cost_current whole_pounds_row) 0
              - coalesce (lighting_cost_potential whole_pounds_row) 0)"
      "s = tc - tp"
    by blast
  have s370: "s = 370"
    unfolding v(4) by (simp add: whole_pounds_row_def cost_row_costs coalesce_def)
  have r1100: "rnd 1100 = 1100" by (rule rnd_numeral) simp
  have r1000: "rnd 1000 = 1000" by (rule rnd_numeral) simp
  have "total_cost_current_of whole_pounds_row = 1100"
    by (simp add: total_cost_current_of_def whole_pounds_row_def cost_row_costs coalesce_def
        dadd_def r1000 r1100)
  then have tc1100: "tc = 1100"
    using v(2) by (simp add: features_row_costs)
  have tp730: "tp = 730" using v(5) s370 tc1100 by simp
  have i: "is_double 800" "is_double 200" "is_double 100"
    unfolding is_double_def by (rule rnd_numeral, simp)+
  have nc: "heating_cost_current no_potential_row = Some 800
      \<and> hot_water_cost_current no_potential_row = Some 200
      \<and> lighting_cost_current no_potential_row = Some 100
      \<and> is_double 800 \<and> is_double 200 \<and> is_double 100
      \<and> heating_cost_potential no_potential_row = None
      \<and> hot_water_cost_potential no_potential_row = None
      \<and> lighting_cost_potential no_potential_row = None"
    using i by (simp add: no_potential_row_def cost_row_costs)
  have d: "dadd (dadd 800 200) 100 = 1100"
    by (simp add: dadd_def r1000 r1100)
  note np = n [THEN conjunct2, THEN conjunct2, rule_format, OF nc, unfolded d]
  from w [THEN conjunct1] n [THEN conjunct1] v(1,2,3) s370 tc1100 tp730 np
  show ?thesis by simp
qed

text \<open>
  C4 as stated (on every row the annual saving equals the total current cost minus the
  total potential cost) fails for costs that are not whole numbers. Heating costs 500.20
  now and after, hot water 100 now, nothing else is known: the saving is 100, and the
  totals are the doubles nearest 600.2 and 500.2, whose difference is \<open>100 + 2 ^ - 44\<close>,
  exactly and as the engine subtracts them.
\<close>

theorem savings_differ_from_total_difference:
  "gold_epc_features (fst (gold_run (clean_store [pence_row]))) = Some [features_row pence_row]
   \<and> annual_savings_potential (features_row pence_row) = Some 100
   \<and> total_cost_current (features_row pence_row) = Some (2639707515964621 / 2 ^ 42)
   \<and> total_cost_potential (features_row pence_row) = Some (8799611459416883 / 2 ^ 44)
   \<and> dsub (2639707515964621 / 2 ^ 42) (8799611459416883 / 2 ^ 44) = 100 + 1 / 2 ^ 44
   \<and> (2639707515964621 / 2 ^ 42 - 8799611459416883 / 2 ^ 44 :: rat) = 100 + 1 / 2 ^ 44"
proof -
  have z: "rnd 0 = 0" by (rule rnd_0)
  have c: "rnd 100 = 100" by (rule rnd_numeral) simp
  have pc: "heating_cost_current pence_row = Some (8799611459416883 / 2 ^ 44)"
      "heating_cost_potential pence_row = Some (8799611459416883 / 2 ^ 44)"
      "hot_water_cost_current pence_row = Some 100"
      "hot_water_cost_potential pence_row = None"
      "lighting_cost_current pence_row = None"
      "lighting_cost_potential pence_row = None"
    unfolding pence_row_def cost_row_costs double_500_2 by (rule refl)+
  have s: "annual_savings_potential_of pence_row = 100"
    unfolding annual_savings_potential_of_def pc
    by (simp add: coalesce_def dsub_def dadd_def z c)
  have tc: "total_cost_current_of pence_row = 2639707515964621 / 2 ^ 42"
    unfolding total_cost_current_of_def pc
    by (simp only: coalesce_def option.case dadd_def add_0_right double_600_2 double_600_2_fix)
  have tp: "total_cost_potential_of pence_row = 8799611459416883 / 2 ^ 44"
    unfolding total_cost_potential_of_def pc
    by (simp only: coalesce_def option.case dadd_def add_0_right double_500_2_fix)
  have d: "dsub (2639707515964621 / 2 ^ 42) (8799611459416883 / 2 ^ 44) = 100 + 1 / 2 ^ 44"
    unfolding dsub_def by (rule double_difference)
  have e: "(2639707515964621 / 2 ^ 42 - 8799611459416883 / 2 ^ 44 :: rat) = 100 + 1 / 2 ^ 44"
    by simp
  have g: "gold_epc_features (fst (gold_run (clean_store [pence_row]))) = Some [features_row pence_row]"
    using gold_run_features [of "clean_store [pence_row]" "[pence_row]"]
      features_of_cost_row [of "Some (rnd (5002 / 10))" "Some (rnd (5002 / 10))" "Some 100"
        None None None, folded pence_row_def]
    by (simp add: clean_store_def)
  show ?thesis
    unfolding features_row_costs s tc tp using g d e by blast
qed

subsection \<open>The text summary\<close>

lemma render_summary_template:
  "render_from env Copy summary_template = concat
     [ ''This is a '', coalesce (env ''property_type'') ''residential property'',
       '' ('', coalesce (env ''built_form'') ''unknown form'', '')'',
       '' built '', coalesce (env ''construction_age_band'') ''in an unknown period'', ''.'',
       '' It has an energy rating of '', coalesce (env ''current_rating'') ''?'',
       '' (efficiency score '', coalesce (env ''current_efficiency'') ''?'', ''/100)'',
       '' and could reach '', coalesce (env ''potential_rating'') ''?'',
       '' ('', coalesce (env ''potential_efficiency'') ''?'', ''/100) with improvements.'',
       '' Walls: '', coalesce (env ''walls_description'') ''unknown'', ''.'',
       '' Roof: '', coalesce (env ''roof_description'') ''unknown'', ''.'',
       '' Windows: '', coalesce (env ''windows_description'') ''unknown'', ''.'',
       '' Heating: '', coalesce (env ''heating_description'') ''unknown'', ''.'',
       '' Main fuel: '', coalesce (env ''main_fuel'') ''unknown'', ''.'' ]"
  by (simp add: summary_template_def)

lemma lower_coalesce:
  "LOWER d = d \<Longrightarrow> LOWER (coalesce x d) = coalesce (map_option LOWER x) d"
  by (cases x) (simp_all add: coalesce_def)

lemma lower_fallbacks:
  "LOWER ''residential property'' = ''residential property''"
  "LOWER ''unknown form'' = ''unknown form''"
  "LOWER ''in an unknown period'' = ''in an unknown period''"
  "LOWER ''unknown'' = ''unknown''"
  by code_simp+

lemma template_fields_values:
  "template_fields c ''property_type'' = map_option LOWER (epc_clean.property_type c)"
  "template_fields c ''built_form'' = map_option LOWER (epc_clean.built_form c)"
  "template_fields c ''construction_age_band''
     = map_option LOWER (epc_clean.construction_age_band c)"
  "template_fields c ''current_rating'' = epc_clean.current_rating c"
  "template_fields c ''current_efficiency''
     = map_option int_to_varchar (epc_clean.current_efficiency c)"
  "template_fields c ''potential_rating'' = epc_clean.potential_rating c"
  "template_fields c ''potential_efficiency''
     = map_option int_to_varchar (epc_clean.potential_efficiency c)"
  "template_fields c ''walls_description'' = map_option LOWER (epc_clean.walls_description c)"
  "template_fields c ''roof_description'' = map_option LOWER (epc_clean.roof_description c)"
  "template_fields c ''windows_description''
     = map_option LOWER (epc_clean.windows_description c)"
  "template_fields c ''heating_description''
     = map_option LOWER (epc_clean.heating_description c)"
  "template_fields c ''main_fuel'' = map_option LOWER (epc_clean.main_fuel c)"
  by (simp_all add: template_fields_def)

lemma text_summary_is_template: "text_summary_of c = template_summary c"
  unfolding template_summary_def render_summary_template template_fields_values
    text_summary_of_def
  by (simp only: lower_coalesce [OF lower_fallbacks(1)] lower_coalesce [OF lower_fallbacks(2)]
      lower_coalesce [OF lower_fallbacks(3)] lower_coalesce [OF lower_fallbacks(4)])

lemma example_texts:
  "UPPER (TRIM '' d'') = ''D''"
  "UPPER (TRIM ''B'') = ''B''"
  "LOWER ''Semi-Detached House'' = ''semi-detached house''"
  "LOWER ''Semi-Detached'' = ''semi-detached''"
  "LOWER ''England and Wales: 1950-1966'' = ''england and wales: 1950-1966''"
  "LOWER ''Cavity wall, filled cavity'' = ''cavity wall, filled cavity''"
  "LOWER ''Pitched, 250 mm loft insulation'' = ''pitched, 250 mm loft insulation''"
  "LOWER ''Fully double glazed'' = ''fully double glazed''"
  "LOWER ''Boiler and radiators, mains gas'' = ''boiler and radiators, mains gas''"
  "LOWER ''mains gas (not community)'' = ''mains gas (not community)''"
  "int_to_varchar 58 = ''58''"
  "int_to_varchar 82 = ''82''"
  by code_simp+

lemma semi_detached_fields:
  "epc_clean.property_type (scored (base plain_casts semi_detached_row))
     = Some ''Semi-Detached House''"
  "epc_clean.built_form (scored (base plain_casts semi_detached_row)) = Some ''Semi-Detached''"
  "epc_clean.construction_age_band (scored (base plain_casts semi_detached_row))
     = Some ''England and Wales: 1950-1966''"
  "epc_clean.current_rating (scored (base plain_casts semi_detached_row)) = Some ''D''"
  "epc_clean.potential_rating (scored (base plain_casts semi_detached_row)) = Some ''B''"
  "epc_clean.current_efficiency (scored (base plain_casts semi_detached_row)) = Some 58"
  "epc_clean.potential_efficiency (scored (base plain_casts semi_detached_row)) = Some 82"
  "epc_clean.walls_description (scored (base plain_casts semi_detached_row))
     = Some ''Cavity wall, filled cavity''"
  "epc_clean.roof_description (scored (base plain_casts semi_detached_row))
     = Some ''Pitched, 250 mm loft insulation''"
  "epc_clean.windows_description (scored (base plain_casts semi_detached_row))
     = Some ''Fully double glazed''"
  "epc_clean.heating_description (scored (base plain_casts semi_detached_row))
     = Some ''Boiler and radiators, mains gas''"
  "epc_clean.main_fuel (scored (base plain_casts semi_detached_row))
     = Some ''mains gas (not community)''"
  by (simp_all add: scored_def base_def semi_detached_row_def blank_row_def try_cast_def
      plain_casts_def plain_integer_def digit_value_def example_texts(1,2))

lemma semi_detached_summary:
  "text_summary_of (scored (base plain_casts semi_detached_row))
     = ''This is a semi-detached house (semi-detached) built england and wales: 1950-1966. It has an energy rating of D (efficiency score 58/100) and could reach B (82/100) with improvements. Walls: cavity wall, filled cavity. Roof: pitched, 250 mm loft insulation. Windows: fully double glazed. Heating: boiler and radiators, mains gas. Main fuel: mains gas (not community).''"
  unfolding text_summary_of_def semi_detached_fields
  by (simp add: coalesce_def example_texts)

lemma blank_summary:
  "text_summary_of (eff_row 58 82)
     = ''This is a residential property (unknown form) built in an unknown period. It has an energy rating of ? (efficiency score 58/100) and could reach ? (82/100) with improvements. Walls: unknown. Roof: unknown. Windows: unknown. Heating: unknown. Main fuel: unknown.''"
  unfolding text_summary_of_def
  by (simp add: eff_row_def blank_clean_def coalesce_def example_texts lower_fallbacks)

text \<open>
  C8. On every row of the feature table that \<^verbatim>\<open>gold.run\<close> writes, the text summary is
  the template of the specification filled in from the clean row: property type, built
  form, construction age band, the four descriptions and the main fuel in lower case,
  the two ratings as stored, the two efficiencies as numerals, and for a NULL field its
  fallback (\<open>residential property\<close>, \<open>unknown form\<close>, \<open>in an unknown period\<close>, \<open>?\<close> for
  ratings and efficiencies, \<open>unknown\<close> for the descriptions and the main fuel).
\<close>

theorem text_summary_template:
  assumes "silver_epc_clean st = Some clean"
  shows "\<exists>fs. gold_epc_features (fst (gold_run st)) = Some fs
     \<and> (\<forall>f \<in> set fs. \<exists>c \<in> set clean. f = features_row c
            \<and> text_summary f = Some (template_summary c))"
proof -
  have "\<exists>c \<in> set clean. f = features_row c \<and> text_summary f = Some (template_summary c)"
    if "f \<in> set (features_select clean)" for f
  proof -
    from that obtain c where c: "c \<in> set clean" "f = features_row c"
      by (auto simp: features_select_mem)
    have "text_summary f = Some (text_summary_of c)"
      by (simp add: c(2) features_row_def)
    with c show ?thesis by (auto simp: text_summary_is_template)
  qed
  with gold_run_features [OF assms] show ?thesis by blast
qed

text \<open>
  The certificate of the example gives the sentence of \<^verbatim>\<open>src/api/schemas.py\<close>; a row
  with nothing but its two efficiencies gives the sentence of the fallbacks.
\<close>

theorem text_summary_template_witness:
  "(gold_epc_features (fst (gold_run (clean_store [scored (base plain_casts semi_detached_row)])))
       = Some [features_row (scored (base plain_casts semi_detached_row))]
    \<and> text_summary (features_row (scored (base plain_casts semi_detached_row)))
        = Some (template_summary (scored (base plain_casts semi_detached_row)))
    \<and> template_summary (scored (base plain_casts semi_detached_row))
        = ''This is a semi-detached house (semi-detached) built england and wales: 1950-1966. It has an energy rating of D (efficiency score 58/100) and could reach B (82/100) with improvements. Walls: cavity wall, filled cavity. Roof: pitched, 250 mm loft insulation. Windows: fully double glazed. Heating: boiler and radiators, mains gas. Main fuel: mains gas (not community).'')
   \<and> (gold_epc_features (fst (gold_run (clean_store [eff_row 58 82])))
       = Some [features_row (eff_row 58 82)]
    \<and> text_summary (features_row (eff_row 58 82)) = Some (template_summary (eff_row 58 82))
    \<and> template_summary (eff_row 58 82)
        = ''This is a residential property (unknown form) built in an unknown period. It has an energy rating of ? (efficiency score 58/100) and could reach ? (82/100) with improvements. Walls: unknown. Roof: unknown. Windows: unknown. Heating: unknown. Main fuel: unknown.'')"
proof -
  have row: "gold_epc_features (fst (gold_run (clean_store [x]))) = Some [features_row x]
             \<and> text_summary (features_row x) = Some (template_summary x)
             \<and> template_summary x = text_summary_of x"
    if x: "features_where x" for x
  proof -
    have s: "silver_epc_clean (clean_store [x]) = Some [x]"
      by (simp add: clean_store_def)
    have sel: "features_select [x] = [features_row x]"
      using x by (simp add: features_select_def)
    from text_summary_template [OF s] obtain fs
      where fs: "gold_epc_features (fst (gold_run (clean_store [x]))) = Some fs"
        and al: "\<forall>f \<in> set fs. \<exists>c \<in> set [x]. f = features_row c
                   \<and> text_summary f = Some (template_summary c)"
      by blast
    have e: "fs = [features_row x]"
      using fs gold_run_features [OF s] sel by simp
    have "features_row x \<in> set fs" unfolding e by simp
    from al [rule_format, OF this] obtain c
      where c: "c \<in> set [x]" "text_summary (features_row x) = Some (template_summary c)"
      by blast
    have cx: "c = x" using c(1) by simp
    have t: "text_summary (features_row x) = Some (template_summary x)"
      using c(2) unfolding cx .
    have "text_summary (features_row x) = Some (text_summary_of x)"
      by (simp add: features_row_def)
    with t have "template_summary x = text_summary_of x" by simp
    with fs [unfolded e] t show ?thesis by simp
  qed
  have w: "features_where (scored (base plain_casts semi_detached_row))"
      "features_where (eff_row 58 82)"
    by (simp_all add: features_where_iff semi_detached_fields eff_row_def)
  from row [OF w(1)] row [OF w(2)] show ?thesis
    unfolding semi_detached_summary blank_summary by simp
qed

section \<open>Properties of the aggregate table\<close>

lemma set_insert_desc: "set (insert_desc s ts) = insert s (set ts)"
  by (induction ts) auto

lemma set_order_by_score: "set (order_by_score segs) = set segs"
  unfolding order_by_score_def by (induction segs) (simp_all add: set_insert_desc)

lemma count_insert_desc:
  "length (filter P (insert_desc s ts)) = length (filter P (s # ts))"
  by (induction ts) auto

lemma count_order_by_score:
  "length (filter P (order_by_score segs)) = length (filter P segs)"
  unfolding order_by_score_def by (induction segs) (simp_all add: count_insert_desc)

lemma non_null_Some: "non_null (map Some xs) = xs"
  unfolding non_null_def by (induction xs) (simp_all add: map_filter_simps)

lemma count_distinct_member:
  "distinct xs \<Longrightarrow> x \<in> set xs \<Longrightarrow> length (filter (\<lambda>k. k = x) xs) = 1"
  by (induction xs) (auto simp: filter_empty_conv)

lemma segment_row_key:
  "(portfolio_agg.property_type (segment_row k g),
    portfolio_agg.construction_age_band (segment_row k g),
    portfolio_agg.retrofit_priority (segment_row k g)) = k"
  by (simp add: segment_row_def)

lemma segment_row_values:
  "property_count (segment_row k g) = Some (int (length g))"
  "avg_retrofit_score (segment_row k g)
     = map_option (\<lambda>d. ROUND_to d 1) (AVG_int (map epc_features.retrofit_score g))"
  by (simp_all add: segment_row_def)

lemma AVG_int_Some:
  "ss \<noteq> [] \<Longrightarrow>
     AVG_int (map Some ss) = Some (ddiv (rnd (of_int (sum_list ss))) (rnd (of_nat (length ss))))"
  by (simp add: AVG_int_def non_null_Some)

lemma sum_list_bound:
  "\<forall>s \<in> set ss. \<bar>s\<bar> \<le> (b::int) \<Longrightarrow> \<bar>sum_list ss\<bar> \<le> b * int (length ss)"
proof (induction ss)
  case Nil
  then show ?case by simp
next
  case (Cons s ss)
  then have "\<bar>s\<bar> \<le> b" "\<bar>sum_list ss\<bar> \<le> b * int (length ss)" by simp_all
  then show ?case by (simp add: algebra_simps)
qed

lemma feature_score_bounded:
  assumes "f \<in> set (features_select clean)"
  shows "\<exists>s. epc_features.retrofit_score f = Some s \<and> \<bar>s\<bar> \<le> 99"
proof -
  from assms obtain c where c: "features_where c" "f = features_row c"
    by (auto simp: features_select_mem)
  from c(1) obtain a b where ab: "epc_clean.current_efficiency c = Some a"
      "epc_clean.potential_efficiency c = Some b" "1 \<le> a" "a \<le> 100" "1 \<le> b" "b \<le> 100"
    by (auto simp: features_where_iff)
  have "epc_features.retrofit_score f = Some (b - a)"
    using priority_of_score(1) [OF ab(1,2)] by (simp add: c(2) features_row_def)
  moreover have "\<bar>b - a\<bar> \<le> 99" using ab(3-6) by simp
  ultimately show ?thesis by blast
qed

lemma scores_of_features:
  assumes "set g \<subseteq> set (features_select clean)"
  shows "\<exists>ss. map epc_features.retrofit_score g = map Some ss \<and> (\<forall>s \<in> set ss. \<bar>s\<bar> \<le> 99)"
  using assms
proof (induction g)
  case Nil
  then show ?case by simp
next
  case (Cons f g)
  then obtain ss where ss: "map epc_features.retrofit_score g = map Some ss"
      "\<forall>s \<in> set ss. \<bar>s\<bar> \<le> 99" by auto
  from Cons.prems obtain s where s: "epc_features.retrofit_score f = Some s" "\<bar>s\<bar> \<le> 99"
    using feature_score_bounded [of f clean] by auto
  have "map epc_features.retrofit_score (f # g) = map Some (s # ss)
      \<and> (\<forall>s \<in> set (s # ss). \<bar>s\<bar> \<le> 99)"
    using s ss by simp
  then show ?case by blast
qed

lemma mean_exact:
  assumes "\<forall>s \<in> set ss. \<bar>s\<bar> \<le> 99" "length ss < 2 ^ 46"
  shows "ddiv (rnd (of_int (sum_list ss))) (rnd (of_nat (length ss)))
           = rnd (of_int (sum_list ss) / of_nat (length ss))"
proof -
  have "\<bar>sum_list ss\<bar> \<le> 99 * int (length ss)"
    using assms(1) by (rule sum_list_bound)
  also have "\<dots> < 99 * 2 ^ 46" using assms(2) by simp
  also have "\<dots> < (2::int) ^ 53" by simp
  finally have a: "rnd (of_int (sum_list ss)) = of_int (sum_list ss)"
    by (rule rnd_of_int)
  have "\<bar>int (length ss)\<bar> < 2 ^ 53" using assms(2) by simp
  then have "rnd (of_int (int (length ss))) = of_int (int (length ss))"
    by (rule rnd_of_int)
  then have b: "rnd (of_nat (length ss)) = of_nat (length ss)" by simp
  show ?thesis unfolding ddiv_def a b ..
qed

lemma ROUND_to_1: "ROUND_to x 1 = ddiv (rnd (of_int (round_away (dmul x 10)))) 10"
  by (simp add: ROUND_to_def)

lemma segment_key_features_row:
  "segment_key (features_row c)
     = (epc_clean.property_type c, epc_clean.construction_age_band c,
        Some (retrofit_priority_of c))"
  by (simp add: segment_key_def features_row_def)

lemma score_features_row:
  "epc_features.retrofit_score (features_row c) = retrofit_score_of c"
  by (simp add: features_row_def)

lemma eff_row_medium:
  assumes "10 \<le> b - a" "b - a \<le> 19"
  shows "segment_key (features_row (eff_row a b)) = (None, None, Some ''Medium'')"
    and "epc_features.retrofit_score (features_row (eff_row a b)) = Some (b - a)"
proof -
  have ab: "epc_clean.current_efficiency (eff_row a b) = Some a"
      "epc_clean.potential_efficiency (eff_row a b) = Some b"
    by (simp_all add: eff_row_def)
  have n: "epc_clean.property_type (eff_row a b) = None"
      "epc_clean.construction_age_band (eff_row a b) = None"
    by (simp_all add: eff_row_def blank_clean_def)
  show "segment_key (features_row (eff_row a b)) = (None, None, Some ''Medium'')"
    unfolding segment_key_features_row n priority_of_score(2) [OF ab] using assms by simp
  show "epc_features.retrofit_score (features_row (eff_row a b)) = Some (b - a)"
    unfolding score_features_row by (rule priority_of_score(1) [OF ab])
qed

lemma thirds_features:
  "features_select thirds_rows
     = [features_row (eff_row 60 70), features_row (eff_row 60 70), features_row (eff_row 60 71)]"
  by (simp add: features_select_def thirds_rows_def features_where_eff_row)

lemma pair_features:
  "features_select pair_rows = [features_row (eff_row 60 70), features_row (eff_row 60 72)]"
  by (simp add: features_select_def pair_rows_def features_where_eff_row)

lemma remdups_replicate_pos: "n \<noteq> 0 \<Longrightarrow> remdups (replicate n k) = [k]"
  by (induction n) (auto simp: set_replicate_conv_if)

lemma eff_row_scores:
  "epc_features.retrofit_score (features_row (eff_row 60 70)) = Some 10"
  "epc_features.retrofit_score (features_row (eff_row 60 71)) = Some 11"
  "epc_features.retrofit_score (features_row (eff_row 60 72)) = Some 12"
proof -
  have "epc_features.retrofit_score (features_row (eff_row 60 70)) = Some (70 - 60)"
    by (rule eff_row_medium(2)) simp_all
  then show "epc_features.retrofit_score (features_row (eff_row 60 70)) = Some 10" by simp
  have "epc_features.retrofit_score (features_row (eff_row 60 71)) = Some (71 - 60)"
    by (rule eff_row_medium(2)) simp_all
  then show "epc_features.retrofit_score (features_row (eff_row 60 71)) = Some 11" by simp
  have "epc_features.retrofit_score (features_row (eff_row 60 72)) = Some (72 - 60)"
    by (rule eff_row_medium(2)) simp_all
  then show "epc_features.retrofit_score (features_row (eff_row 60 72)) = Some 12" by simp
qed

lemma one_segment:
  assumes "fs \<noteq> []" "\<forall>f \<in> set fs. segment_key f = k"
  shows "portfolio_select fs = [segment_row k fs]"
proof -
  have m: "map segment_key fs = replicate (length fs) k"
    using assms(2) by (induction fs) simp_all
  have "length fs \<noteq> 0" using assms(1) by simp
  then have "remdups (replicate (length fs) k) = [k]"
    by (rule remdups_replicate_pos)
  moreover have "filter (\<lambda>f. segment_key f = k) fs = fs"
    using assms(2) by (simp add: filter_id_conv)
  ultimately show ?thesis
    by (simp add: portfolio_select_def grouped_def m order_by_score_def)
qed

lemma double_31_3: "rnd (31 / 3) = 5817149518686891 / 2 ^ 49"
proof -
  have r: "round_even (\<bar>31 / 3\<bar> * 2 ^ 49 / 2 ^ 0) = 5817149518686891"
    by (rule round_even_near) simp
  have "rnd (31 / 3)
      = sgn (31 / 3) * of_int (round_even (\<bar>31 / 3\<bar> * 2 ^ 49 / 2 ^ 0)) * 2 ^ 0 / 2 ^ 49"
    by (rule rnd_scaled) simp_all
  then show ?thesis unfolding r by simp
qed

lemma double_31_3_times_10:
  "rnd (5817149518686891 / 2 ^ 49 * 10) = 7271436898358614 / 2 ^ 46"
proof -
  have r: "round_even (\<bar>5817149518686891 / 2 ^ 49 * 10\<bar> * 2 ^ 46 / 2 ^ 0) = 7271436898358614"
    by (rule round_even_near) simp
  have "rnd (5817149518686891 / 2 ^ 49 * 10)
      = sgn (5817149518686891 / 2 ^ 49 * 10)
          * of_int (round_even (\<bar>5817149518686891 / 2 ^ 49 * 10\<bar> * 2 ^ 46 / 2 ^ 0))
          * 2 ^ 0 / 2 ^ 46"
    by (rule rnd_scaled) simp_all
  then show ?thesis unfolding r by simp
qed

lemma round_away_103: "round_away (7271436898358614 / 2 ^ 46) = 103"
proof -
  have "\<lfloor>7271436898358614 / 2 ^ 46 + 1 / 2 :: rat\<rfloor> = 103"
    by (rule floor_unique) simp_all
  then show ?thesis by (simp add: round_away_def)
qed

lemma double_103_10: "rnd (103 / 10) = 2899192260119757 / 2 ^ 48"
proof -
  have r: "round_even (\<bar>103 / 10\<bar> * 2 ^ 49 / 2 ^ 0) = 5798384520239514"
    by (rule round_even_near) simp
  have "rnd (103 / 10)
      = sgn (103 / 10) * of_int (round_even (\<bar>103 / 10\<bar> * 2 ^ 49 / 2 ^ 0)) * 2 ^ 0 / 2 ^ 49"
    by (rule rnd_scaled) simp_all
  then show ?thesis unfolding r by simp
qed

lemma average_of_thirds:
  "ROUND_to (ddiv (rnd (of_int (sum_list [10, 10, 11]))) (rnd (of_nat (length [10, 10, 11 :: int])))) 1
     = 2899192260119757 / 2 ^ 48"
proof -
  have r31: "rnd 31 = 31" by (rule rnd_numeral) simp
  have r3: "rnd 3 = 3" by (rule rnd_numeral) simp
  have r103: "rnd 103 = 103" by (rule rnd_numeral) simp
  have a: "ddiv (rnd (of_int (sum_list [10, 10, 11]))) (rnd (of_nat (length [10, 10, 11 :: int])))
      = 5817149518686891 / 2 ^ 49"
    by (simp add: ddiv_def r31 r3 double_31_3)
  show ?thesis
    unfolding a ROUND_to_1 dmul_def double_31_3_times_10 round_away_103
    by (simp add: r103 ddiv_def double_103_10)
qed

lemma average_of_pair:
  "ROUND_to (ddiv (rnd (of_int (sum_list [10, 12]))) (rnd (of_nat (length [10, 12 :: int])))) 1 = 11"
proof -
  have r22: "rnd 22 = 22" by (rule rnd_numeral) simp
  have r2: "rnd 2 = 2" by (rule rnd_numeral) simp
  have r11: "rnd 11 = 11" by (rule rnd_numeral) simp
  have r110: "rnd 110 = 110" by (rule rnd_numeral) simp
  have a: "ddiv (rnd (of_int (sum_list [10, 12]))) (rnd (of_nat (length [10, 12 :: int]))) = 11"
    by (simp add: ddiv_def r22 r2 r11)
  have "\<lfloor>110 + 1 / 2 :: rat\<rfloor> = 110"
    by (rule floor_unique) simp_all
  then have b: "round_away 110 = 110"
    by (simp add: round_away_def)
  show ?thesis
    unfolding a ROUND_to_1 dmul_def
    by (simp add: r110 r11 b ddiv_def)
qed

text \<open>
  C5, as the code has it. \<^verbatim>\<open>gold.run\<close> writes \<open>gold.portfolio_agg\<close> from the feature
  table it has just written. Every row of it has the key (property type, construction
  age band, retrofit priority) of at least one feature row; its property count is the
  number of feature rows with that key; and its average retrofit score is computed from
  the retrofit scores of exactly those rows, none of them NULL: their sum divided by
  their number as doubles, then rounded to one decimal by \<open>ROUND(..., 1)\<close>. For fewer
  than \<open>2 ^ 46\<close> rows the quotient is the double nearest the mean. Every key of a
  feature row has exactly one row in the table, so a key that no feature row has gets
  none.
\<close>

theorem segment_count_and_average:
  assumes "silver_epc_clean st = Some clean"
  shows "\<exists>fs segs. gold_epc_features (fst (gold_run st)) = Some fs
     \<and> gold_portfolio_agg (fst (gold_run st)) = Some segs
     \<and> (\<forall>seg \<in> set segs. \<exists>g ss.
            g = filter (\<lambda>f. segment_key f
                              = (portfolio_agg.property_type seg,
                                 portfolio_agg.construction_age_band seg,
                                 portfolio_agg.retrofit_priority seg)) fs
          \<and> g \<noteq> []
          \<and> property_count seg = Some (int (length g))
          \<and> map epc_features.retrofit_score g = map Some ss
          \<and> avg_retrofit_score seg
              = Some (ROUND_to (ddiv (rnd (of_int (sum_list ss))) (rnd (of_nat (length ss)))) 1)
          \<and> (length g < 2 ^ 46 \<longrightarrow>
                avg_retrofit_score seg
                  = Some (ROUND_to (rnd (of_int (sum_list ss) / of_nat (length ss))) 1)))
     \<and> (\<forall>f \<in> set fs.
            length (filter (\<lambda>seg. (portfolio_agg.property_type seg,
                                   portfolio_agg.construction_age_band seg,
                                   portfolio_agg.retrofit_priority seg) = segment_key f) segs) = 1)"
proof -
  define fs where "fs = features_select clean"
  define segs where "segs = portfolio_select fs"
  have t1: "gold_epc_features (fst (gold_run st)) = Some fs"
    unfolding fs_def using assms by (rule gold_run_features)
  have t2: "gold_portfolio_agg (fst (gold_run st)) = Some segs"
    unfolding segs_def fs_def using assms by (rule gold_run_portfolio)
  have p1: "\<exists>g ss.
            g = filter (\<lambda>f. segment_key f
                              = (portfolio_agg.property_type seg,
                                 portfolio_agg.construction_age_band seg,
                                 portfolio_agg.retrofit_priority seg)) fs
          \<and> g \<noteq> []
          \<and> property_count seg = Some (int (length g))
          \<and> map epc_features.retrofit_score g = map Some ss
          \<and> avg_retrofit_score seg
              = Some (ROUND_to (ddiv (rnd (of_int (sum_list ss))) (rnd (of_nat (length ss)))) 1)
          \<and> (length g < 2 ^ 46 \<longrightarrow>
                avg_retrofit_score seg
                  = Some (ROUND_to (rnd (of_int (sum_list ss) / of_nat (length ss))) 1))"
    if "seg \<in> set segs" for seg
  proof -
    from that have "seg \<in> set (grouped fs)"
      by (simp add: segs_def portfolio_select_def set_order_by_score)
    then obtain k where k: "k \<in> set (map segment_key fs)"
        "seg = segment_row k (filter (\<lambda>f. segment_key f = k) fs)"
      by (auto simp: grouped_def)
    define g where "g = filter (\<lambda>f. segment_key f = k) fs"
    have key: "(portfolio_agg.property_type seg, portfolio_agg.construction_age_band seg,
                portfolio_agg.retrofit_priority seg) = k"
      unfolding k(2) by (rule segment_row_key)
    have ne: "g \<noteq> []"
      using k(1) by (auto simp: g_def filter_empty_conv)
    have "set g \<subseteq> set (features_select clean)"
      by (auto simp: g_def fs_def)
    from scores_of_features [OF this] obtain ss
      where ss: "map epc_features.retrofit_score g = map Some ss" "\<forall>s \<in> set ss. \<bar>s\<bar> \<le> 99"
      by blast
    have len: "length ss = length g"
      using ss(1) by (metis length_map)
    have sne: "ss \<noteq> []" using ne len by auto
    have cnt: "property_count seg = Some (int (length g))"
      unfolding k(2) g_def by (rule segment_row_values(1))
    have avg: "avg_retrofit_score seg
        = Some (ROUND_to (ddiv (rnd (of_int (sum_list ss))) (rnd (of_nat (length ss)))) 1)"
      unfolding k(2) segment_row_values(2) g_def [symmetric] ss(1) AVG_int_Some [OF sne]
      by simp
    have avg2: "avg_retrofit_score seg
        = Some (ROUND_to (rnd (of_int (sum_list ss) / of_nat (length ss))) 1)"
      if "length g < 2 ^ 46"
      unfolding avg using mean_exact [OF ss(2)] that len by simp
    from ne cnt ss(1) avg avg2 show ?thesis
      unfolding key g_def [symmetric] by blast
  qed
  have p2: "length (filter (\<lambda>seg. (portfolio_agg.property_type seg,
                                   portfolio_agg.construction_age_band seg,
                                   portfolio_agg.retrofit_priority seg) = segment_key f) segs) = 1"
    if "f \<in> set fs" for f
  proof -
    have "length (filter (\<lambda>seg. (portfolio_agg.property_type seg,
                                   portfolio_agg.construction_age_band seg,
                                   portfolio_agg.retrofit_priority seg) = segment_key f) segs)
        = length (filter (\<lambda>k. k = segment_key f) (remdups (map segment_key fs)))"
      unfolding segs_def portfolio_select_def count_order_by_score grouped_def
      by (simp add: filter_map o_def segment_row_key)
    also have "\<dots> = 1"
      by (rule count_distinct_member) (use that in auto)
    finally show ?thesis .
  qed
  from t1 t2 p1 p2 show ?thesis by blast
qed

text \<open>
  Two rows of one segment with scores 10 and 12: a count of 2 and an average of 11.
\<close>

theorem segment_count_and_average_witness:
  "gold_epc_features (fst (gold_run (clean_store pair_rows)))
       = Some [features_row (eff_row 60 70), features_row (eff_row 60 72)]
   \<and> map epc_features.retrofit_score [features_row (eff_row 60 70), features_row (eff_row 60 72)]
       = [Some 10, Some 12]
   \<and> (\<exists>seg. gold_portfolio_agg (fst (gold_run (clean_store pair_rows))) = Some [seg]
         \<and> (portfolio_agg.property_type seg, portfolio_agg.construction_age_band seg,
            portfolio_agg.retrofit_priority seg) = (None, None, Some ''Medium'')
         \<and> property_count seg = Some 2
         \<and> avg_retrofit_score seg = Some 11)"
proof -
  let ?fs = "[features_row (eff_row 60 70), features_row (eff_row 60 72)]"
  let ?k = "(None :: string option, None :: string option, Some ''Medium'')"
  have s: "silver_epc_clean (clean_store pair_rows) = Some pair_rows"
    by (simp add: clean_store_def)
  have k: "segment_key (features_row (eff_row 60 70)) = ?k"
      "segment_key (features_row (eff_row 60 72)) = ?k"
    by (rule eff_row_medium(1), simp, simp)+
  have sc: "map epc_features.retrofit_score ?fs = [Some 10, Some 12]"
    by (simp add: eff_row_scores)
  have f: "gold_epc_features (fst (gold_run (clean_store pair_rows))) = Some ?fs"
    using gold_run_features [OF s] by (simp only: pair_features)
  have ps: "portfolio_select ?fs = [segment_row ?k ?fs]"
    by (rule one_segment) (simp_all add: k)
  have g: "gold_portfolio_agg (fst (gold_run (clean_store pair_rows))) = Some [segment_row ?k ?fs]"
    using gold_run_portfolio [OF s] by (simp only: pair_features ps)
  from segment_count_and_average [OF s] obtain fs segs
    where t: "gold_epc_features (fst (gold_run (clean_store pair_rows))) = Some fs"
      "gold_portfolio_agg (fst (gold_run (clean_store pair_rows))) = Some segs"
      and al: "\<forall>seg \<in> set segs. \<exists>g ss.
            g = filter (\<lambda>f. segment_key f
                              = (portfolio_agg.property_type seg,
                                 portfolio_agg.construction_age_band seg,
                                 portfolio_agg.retrofit_priority seg)) fs
          \<and> g \<noteq> []
          \<and> property_count seg = Some (int (length g))
          \<and> map epc_features.retrofit_score g = map Some ss
          \<and> avg_retrofit_score seg
              = Some (ROUND_to (ddiv (rnd (of_int (sum_list ss))) (rnd (of_nat (length ss)))) 1)
          \<and> (length g < 2 ^ 46 \<longrightarrow>
                avg_retrofit_score seg
                  = Some (ROUND_to (rnd (of_int (sum_list ss) / of_nat (length ss))) 1))"
    by blast
  have fe: "fs = ?fs" using t(1) f by simp
  have se: "segs = [segment_row ?k ?fs]" using t(2) g by simp
  define seg where "seg = segment_row ?k ?fs"
  have key: "(portfolio_agg.property_type seg, portfolio_agg.construction_age_band seg,
              portfolio_agg.retrofit_priority seg) = ?k"
    unfolding seg_def by (rule segment_row_key)
  have "seg \<in> set segs" unfolding se seg_def by simp
  from al [rule_format, OF this] obtain g ss
    where v: "g = filter (\<lambda>f. segment_key f
                              = (portfolio_agg.property_type seg,
                                 portfolio_agg.construction_age_band seg,
                                 portfolio_agg.retrofit_priority seg)) fs"
      "property_count seg = Some (int (length g))"
      "map epc_features.retrofit_score g = map Some ss"
      "avg_retrofit_score seg
              = Some (ROUND_to (ddiv (rnd (of_int (sum_list ss))) (rnd (of_nat (length ss)))) 1)"
    by blast
  have ge: "g = ?fs"
    unfolding v(1) key fe by (simp add: k)
  have "map Some ss = map Some [10, 12]"
    using v(3) unfolding ge sc by simp
  then have sse: "ss = [10, 12]"
    by (simp only: inj_map_eq_map [OF inj_Some])
  have c: "property_count seg = Some 2"
    unfolding v(2) ge by simp
  have a: "avg_retrofit_score seg = Some 11"
    unfolding v(4) sse average_of_pair ..
  from f sc g key c a show ?thesis
    unfolding seg_def [symmetric] by blast
qed

text \<open>
  C5 as stated (the average retrofit score equals the mean) fails where the mean has
  more than one decimal: three rows with scores 10, 10 and 11 have the mean \<open>31 / 3\<close>,
  and the stored average is the double nearest 10.3.
\<close>

theorem average_is_rounded:
  "gold_epc_features (fst (gold_run (clean_store thirds_rows)))
       = Some [features_row (eff_row 60 70), features_row (eff_row 60 70),
               features_row (eff_row 60 71)]
   \<and> map epc_features.retrofit_score
         [features_row (eff_row 60 70), features_row (eff_row 60 70), features_row (eff_row 60 71)]
       = [Some 10, Some 10, Some 11]
   \<and> (\<exists>seg. gold_portfolio_agg (fst (gold_run (clean_store thirds_rows))) = Some [seg]
         \<and> property_count seg = Some 3
         \<and> avg_retrofit_score seg = Some (2899192260119757 / 2 ^ 48))
   \<and> (2899192260119757 / 2 ^ 48 :: rat) \<noteq> (10 + 10 + 11) / 3"
proof -
  let ?fs = "[features_row (eff_row 60 70), features_row (eff_row 60 70),
              features_row (eff_row 60 71)]"
  let ?k = "(None :: string option, None :: string option, Some ''Medium'')"
  have s: "silver_epc_clean (clean_store thirds_rows) = Some thirds_rows"
    by (simp add: clean_store_def)
  have k: "segment_key (features_row (eff_row 60 70)) = ?k"
      "segment_key (features_row (eff_row 60 71)) = ?k"
    by (rule eff_row_medium(1), simp, simp)+
  have sc: "map epc_features.retrofit_score ?fs = [Some 10, Some 10, Some 11]"
    by (simp add: eff_row_scores)
  have f: "gold_epc_features (fst (gold_run (clean_store thirds_rows))) = Some ?fs"
    using gold_run_features [OF s] by (simp only: thirds_features)
  have ps: "portfolio_select ?fs = [segment_row ?k ?fs]"
    by (rule one_segment) (simp_all add: k)
  have g: "gold_portfolio_agg (fst (gold_run (clean_store thirds_rows)))
      = Some [segment_row ?k ?fs]"
    using gold_run_portfolio [OF s] by (simp only: thirds_features ps)
  have c: "property_count (segment_row ?k ?fs) = Some 3"
    by (simp add: segment_row_values(1))
  have m: "map epc_features.retrofit_score ?fs = map Some [10, 10, 11]"
    unfolding sc by simp
  have "AVG_int (map epc_features.retrofit_score ?fs)
      = Some (ddiv (rnd (of_int (sum_list [10, 10, 11])))
                   (rnd (of_nat (length [10, 10, 11 :: int]))))"
    unfolding m by (rule AVG_int_Some) simp
  then have a: "avg_retrofit_score (segment_row ?k ?fs) = Some (2899192260119757 / 2 ^ 48)"
    unfolding segment_row_values(2) by (simp only: option.map average_of_thirds)
  have d: "(2899192260119757 / 2 ^ 48 :: rat) \<noteq> (10 + 10 + 11) / 3"
    by simp
  from f sc g c a d show ?thesis by blast
qed

section \<open>A failed ingestion\<close>

text \<open>
  C7, as the code has it. When reading the source file raises, the run ends with that
  error and neither \<^verbatim>\<open>silver.run\<close> nor \<^verbatim>\<open>gold.run\<close> is started: the clean, feature
  and aggregate tables are as they were. The landing table is not: \<^verbatim>\<open>bronze.run\<close> has
  dropped it before it reads the file, so the store is left without a landing table.
\<close>

theorem failed_ingestion_store:
  "run_pipeline cs csv_path now (Inl e) st
     = (st \<lparr> schemas := insert ''bronze'' (schemas st), bronze_epc_raw := None \<rparr>, Inl e)"
  by (simp add: run_pipeline_def bronze_run_def create_schema_def)

theorem failed_ingestion_store_witness:
  "run_pipeline plain_casts ''data/raw/certificates.csv'' ''2024-01-01 00:00:00''
       (Inl IOException) store_before
     = (store_before \<lparr> bronze_epc_raw := None \<rparr>, Inl IOException)"
  using failed_ingestion_store [of plain_casts "''data/raw/certificates.csv''"
      "''2024-01-01 00:00:00''" IOException store_before]
  by (simp add: store_before_def insert_absorb)

text \<open>
  C7 as stated (a failed ingestion leaves the landing table unchanged) fails: a landing
  table of one row is gone after a run on a missing file.
\<close>

theorem failed_ingestion_drops_landing_table:
  "bronze_epc_raw store_before = Some [blank_row \<lparr> LMK_KEY := Some ''K1'' \<rparr>]
   \<and> bronze_epc_raw (fst (run_pipeline plain_casts ''data/raw/certificates.csv''
         ''2024-01-01 00:00:00'' (Inl IOException) store_before)) = None"
  by (simp add: run_pipeline_def bronze_run_def create_schema_def store_before_def)

end
